theory Spec2Isabelle
  imports Complex_Main "HOL-Library.AList"
begin

section \<open>The block optimizer of blocksnet: data model\<close>

text \<open>
  The theory embeds \<^verbatim>\<open>src/blocksnet/method/block_optimizer.py\<close>. Python floats and
  numpy numbers are idealised as rationals; where numpy would produce an infinity or a
  NaN the model returns the error \<open>NonFinite\<close>. Block identifiers are the labels of the
  table of blocks, non-negative Python ints, from which pulp builds the names of the
  variables.
  Everything raised by the Python code is a value of \<open>error\<close>.
\<close>

type_synonym block_id = nat

datatype error = KeyError | ZeroDivisionError | AttributeError | ValueError | NonFinite

datatype LandUse =
  RESIDENTIAL | BUSINESS | RECREATION | SPECIAL | INDUSTRIAL | AGRICULTURE | TRANSPORT

record Indicator =
  FSI_min :: rat
  FSI_max :: rat
  site_coverage_min :: rat
  site_coverage_max :: rat

fun LAND_USE_INDICATORS :: "LandUse \<Rightarrow> Indicator" where
  "LAND_USE_INDICATORS RESIDENTIAL =
     \<lparr>FSI_min = 1/2, FSI_max = 3, site_coverage_min = 2/10, site_coverage_max = 8/10\<rparr>"
| "LAND_USE_INDICATORS BUSINESS =
     \<lparr>FSI_min = 1, FSI_max = 3, site_coverage_min = 0, site_coverage_max = 8/10\<rparr>"
| "LAND_USE_INDICATORS RECREATION =
     \<lparr>FSI_min = 5/100, FSI_max = 2/10, site_coverage_min = 0, site_coverage_max = 3/10\<rparr>"
| "LAND_USE_INDICATORS SPECIAL =
     \<lparr>FSI_min = 5/100, FSI_max = 2/10, site_coverage_min = 5/100, site_coverage_max = 15/100\<rparr>"
| "LAND_USE_INDICATORS INDUSTRIAL =
     \<lparr>FSI_min = 3/10, FSI_max = 15/10, site_coverage_min = 2/10, site_coverage_max = 8/10\<rparr>"
| "LAND_USE_INDICATORS AGRICULTURE =
     \<lparr>FSI_min = 1/10, FSI_max = 2/10, site_coverage_min = 0, site_coverage_max = 6/10\<rparr>"
| "LAND_USE_INDICATORS TRANSPORT =
     \<lparr>FSI_min = 2/10, FSI_max = 1, site_coverage_min = 0, site_coverage_max = 8/10\<rparr>"

text \<open>A brick of a service type's catalog (\<^verbatim>\<open>brick.capacity\<close>, \<^verbatim>\<open>brick.area\<close>).\<close>

record Brick =
  brick_capacity :: rat
  brick_area :: rat

text \<open>
  A service type as the optimizer reads it: \<^verbatim>\<open>serv.name\<close>, \<^verbatim>\<open>serv.demand\<close> (per 1000
  inhabitants), \<^verbatim>\<open>serv.accessibility\<close> (the threshold) and \<^verbatim>\<open>serv.bricks\<close>. Its method
  \<^verbatim>\<open>calculate_in_need\<close> belongs to a class outside the sources and is a parameter
  of the functions that call it.
\<close>

record ServiceType =
  name :: string
  demand :: rat
  accessibility :: rat
  bricks :: "Brick list"

text \<open>An installed service, as its \<^verbatim>\<open>to_dict()\<close> is read: service type name and capacity.\<close>

record Service =
  service_type :: string
  capacity :: rat

record Block =
  site_area :: rat
  land_use :: LandUse
  population :: rat
  all_services :: "Service list"

text \<open>
  A row of \<^verbatim>\<open>city_model.get_blocks_gdf(False)\<close>: the population and the columns
  \<^verbatim>\<open>capacity_<name>\<close>, read by service type name.
\<close>

record gdf_row =
  gdf_population :: rat
  gdf_capacity :: "string \<Rightarrow> rat"

text \<open>
  The city model, which the optimizer only reads: \<^verbatim>\<open>city_model[key]\<close> (a KeyError when
  the block is unknown), \<^verbatim>\<open>get_land_use_service_types\<close> and the table of blocks, keyed
  by block id in row order.
\<close>

record City =
  block :: "block_id \<rightharpoonup> Block"
  get_land_use_service_types :: "LandUse \<Rightarrow> ServiceType list"
  get_blocks_gdf :: "(block_id \<times> gdf_row) list"

text \<open>A row of the table returned by \<^verbatim>\<open>Accessibility(...).calculate(selected_block)\<close>.\<close>

record acc_row =
  acc_id :: block_id
  accessibility_to :: rat
  accessibility_from :: rat

section \<open>Tables of updates\<close>

text \<open>
  A pandas DataFrame of numbers, as far as the optimizer uses one: the row labels, the
  column labels and the cells; \<open>None\<close> is NaN. The order of rows and columns is left
  out. Outside the labels every cell is \<open>None\<close>.
\<close>

record DataFrame =
  index :: "nat set"
  columns :: "string set"
  cell :: "nat \<Rightarrow> string \<Rightarrow> rat option"

text \<open>
  \<^verbatim>\<open>pd.DataFrame.from_dict(d, orient="index")\<close> for a dict of dicts, kept in insertion
  order. pandas turns the nested dict around, column by column, so a row whose dict is
  empty leaves no label in the table.
\<close>

definition from_dict_index :: "(nat \<times> (string \<times> rat) list) list \<Rightarrow> DataFrame" where
  "from_dict_index d =
     \<lparr>index = fst ` {r \<in> set d. snd r \<noteq> []},
      columns = (\<Union>r \<in> set d. fst ` set (snd r)),
      cell = (\<lambda>r c. case map_of d r of None \<Rightarrow> None | Some row \<Rightarrow> map_of row c)\<rparr>"

text \<open>\<^verbatim>\<open>df.fillna(0)\<close>: every NaN cell of the table becomes 0.\<close>

definition fillna0 :: "DataFrame \<Rightarrow> DataFrame" where
  "fillna0 df =
     df\<lparr>cell := (\<lambda>r c. if r \<in> index df \<and> c \<in> columns df
                         then Some (case cell df r c of None \<Rightarrow> 0 | Some v \<Rightarrow> v)
                         else None)\<rparr>"

text \<open>
  \<^verbatim>\<open>self.combine_first(other)\<close>: the labels are the unions of the labels, and a cell
  is the one of \<open>self\<close> unless that is NaN or absent, then the one of \<open>other\<close>.
\<close>

definition combine_first :: "DataFrame \<Rightarrow> DataFrame \<Rightarrow> DataFrame" where
  "combine_first self other =
     \<lparr>index = index self \<union> index other,
      columns = columns self \<union> columns other,
      cell = (\<lambda>r c. case cell self r c of Some v \<Rightarrow> Some v | None \<Rightarrow> cell other r c)\<rparr>"

section \<open>Demolition update\<close>

text \<open>
  The loop of \<^verbatim>\<open>get_deleting_update_df\<close> over \<^verbatim>\<open>selected_block.all_services\<close>:
  \<^verbatim>\<open>service_capacities[service_dict["service_type"]] = -service_dict["capacity"]\<close>.
  A Python dict keeps the position of a key that is assigned again and replaces its
  value, which is \<open>AList.update\<close>.
\<close>

fun service_capacities_loop :: "(string \<times> rat) list \<Rightarrow> Service list \<Rightarrow> (string \<times> rat) list" where
  "service_capacities_loop d [] = d"
| "service_capacities_loop d (serv # rest) =
     service_capacities_loop (AList.update (service_type serv) (- capacity serv) d) rest"

definition deleting_row :: "Block \<Rightarrow> bool \<Rightarrow> (string \<times> rat) list" where
  "deleting_row selected_block delete_population =
     (let service_capacities = service_capacities_loop [] (all_services selected_block)
      in if delete_population
         then AList.update ''population'' (- population selected_block) service_capacities
         else service_capacities)"

definition get_deleting_update_df :: "City \<Rightarrow> block_id \<Rightarrow> bool \<Rightarrow> error + DataFrame" where
  "get_deleting_update_df cm selected_block_id delete_population =
     (case block cm selected_block_id of
        None \<Rightarrow> Inl KeyError
      | Some selected_block \<Rightarrow>
          Inr (from_dict_index [(selected_block_id, deleting_row selected_block delete_population)]))"


section \<open>The context of one calculation\<close>

text \<open>A row of \<^verbatim>\<open>bricks_df\<close>; its index label is its position, starting at 0.\<close>

record brick_row =
  row_service_type :: string
  row_capacity :: rat
  row_area :: rat

record local_constants =
  demand_local :: rat
  capacity_local :: rat

text \<open>
  The attributes of the \<^verbatim>\<open>BlockOptimizer\<close> object. Dicts that the code iterates are
  association lists in insertion order; dicts that it only reads by key are maps.
\<close>

record BlockOptimizer =
  city_model :: City
  BLOCKS_LANUSE_DICT :: "(block_id \<times> LandUse) list"
  ORIG_SERVICE_TYPES :: "block_id \<rightharpoonup> ServiceType list"
  NEW_SERVICE_TYPES :: "block_id \<rightharpoonup> ServiceType list"
  FREE_AREA :: "block_id \<rightharpoonup> rat"
  BRICKS :: "block_id \<rightharpoonup> brick_row list"
  CONSTANTS :: "block_id \<rightharpoonup> ((string \<rightharpoonup> local_constants) \<times> rat)"
  SCENARIO :: "(string \<times> rat) list"
  MAX_FACILITIES :: "int option"

text \<open>
  What the optimizer calls outside the sources: the accessibility table of a block, the
  demand of a service type for a population (\<^verbatim>\<open>serv.calculate_in_need\<close>), and the order
  in which Python iterates the set of service types built in \<^verbatim>\<open>get_capacity_demand\<close>.
\<close>

record Externals =
  Accessibility_calculate :: "block_id \<Rightarrow> acc_row list"
  calculate_in_need :: "ServiceType \<Rightarrow> rat \<Rightarrow> rat"
  set_order :: "ServiceType list \<Rightarrow> ServiceType list"

definition calculate_free_area :: "BlockOptimizer \<Rightarrow> block_id \<Rightarrow> error + rat" where
  "calculate_free_area self selected_block_id =
     (case block (city_model self) selected_block_id of
        None \<Rightarrow> Inl KeyError
      | Some selected_block \<Rightarrow> Inr (site_area selected_block * (8/10)))"

section \<open>Demand and capacity estimator\<close>

text \<open>\<^verbatim>\<open>gdf.loc[selected_block_id, "population"] = 0\<close>.\<close>

definition zero_population :: "block_id \<Rightarrow> (block_id \<times> gdf_row) list \<Rightarrow> (block_id \<times> gdf_row) list" where
  "zero_population selected_block_id gdf =
     map (\<lambda>(i, r). if i = selected_block_id then (i, r\<lparr>gdf_population := 0\<rparr>) else (i, r)) gdf"

text \<open>\<^verbatim>\<open>gdf.loc[idxs]\<close>: one row per label, a KeyError when a label is not in the table.\<close>

fun loc_rows :: "(block_id \<times> gdf_row) list \<Rightarrow> block_id list \<Rightarrow> error + gdf_row list" where
  "loc_rows gdf [] = Inr []"
| "loc_rows gdf (i # rest) =
     (case map_of gdf i of
        None \<Rightarrow> Inl KeyError
      | Some r \<Rightarrow> (case loc_rows gdf rest of Inl e \<Rightarrow> Inl e | Inr rs \<Rightarrow> Inr (r # rs)))"

text \<open>The ids of the rows of the accessibility table within the threshold of a service type.\<close>

definition catchment_idxs :: "acc_row list \<Rightarrow> ServiceType \<Rightarrow> block_id list" where
  "catchment_idxs acc_gdf serv =
     map acc_id (filter (\<lambda>r. accessibility_to r \<le> accessibility serv
                              \<or> accessibility_from r \<le> accessibility serv) acc_gdf)"

text \<open>
  One pass of the loop body of \<^verbatim>\<open>get_capacity_demand\<close> up to \<^verbatim>\<open>capacity_left\<close>: the
  entry of \<open>constants\<close> and the global margin of the service type.
\<close>

definition estimate_service ::
  "Externals \<Rightarrow> (block_id \<times> gdf_row) list \<Rightarrow> gdf_row \<Rightarrow> acc_row list \<Rightarrow> ServiceType
     \<Rightarrow> error + (local_constants \<times> rat)" where
  "estimate_service ext gdf selected_block_gdf acc_gdf serv =
     (case loc_rows gdf (catchment_idxs acc_gdf serv) of
        Inl e \<Rightarrow> Inl e
      | Inr context_gdf \<Rightarrow>
          (let demand_loc = sum_list (map (\<lambda>r. calculate_in_need ext serv (gdf_population r)) context_gdf);
               capacity_loc = sum_list (map (\<lambda>r. gdf_capacity r (name serv)) context_gdf)
                                - gdf_capacity selected_block_gdf (name serv);
               demand_global = sum_list (map (\<lambda>(i, r). calculate_in_need ext serv (gdf_population r)) gdf);
               capacity_global = sum_list (map (\<lambda>(i, r). gdf_capacity r (name serv)) gdf)
                                   - gdf_capacity selected_block_gdf (name serv);
               capacity_left = capacity_global - demand_global
           in Inr (\<lparr>demand_local = demand_loc, capacity_local = capacity_loc\<rparr>, capacity_left)))"

text \<open>
  The state of the loop: \<open>constants\<close>, and \<open>min_capacity_left\<close> with \<open>min_service\<close>. The
  two are assigned together, so they are one optional pair: \<open>None\<close> is the initial
  \<^verbatim>\<open>float("inf")\<close> with \<^verbatim>\<open>min_service = None\<close>, below which every margin lies.
\<close>

record estimator_state =
  constants :: "string \<rightharpoonup> local_constants"
  min_found :: "(rat \<times> ServiceType) option"

definition below_min :: "rat \<Rightarrow> (rat \<times> ServiceType) option \<Rightarrow> bool" where
  "below_min capacity_left m = (case m of None \<Rightarrow> True | Some (min_capacity_left, _) \<Rightarrow> capacity_left < min_capacity_left)"

fun estimator_loop ::
  "Externals \<Rightarrow> (block_id \<times> gdf_row) list \<Rightarrow> gdf_row \<Rightarrow> acc_row list \<Rightarrow> estimator_state
     \<Rightarrow> ServiceType list \<Rightarrow> error + estimator_state" where
  "estimator_loop ext gdf sel acc_gdf st [] = Inr st"
| "estimator_loop ext gdf sel acc_gdf st (serv # rest) =
     (case estimate_service ext gdf sel acc_gdf serv of
        Inl e \<Rightarrow> Inl e
      | Inr (lc, capacity_left) \<Rightarrow>
          estimator_loop ext gdf sel acc_gdf
            \<lparr>constants = (constants st)(name serv \<mapsto> lc),
             min_found = (if below_min capacity_left (min_found st)
                          then Some (capacity_left, serv) else min_found st)\<rparr>
            rest)"

text \<open>
  \<^verbatim>\<open>max(min_capacity_left / min_service.demand * 1000, 0)\<close>. Without any service type
  \<^verbatim>\<open>min_service\<close> is \<^verbatim>\<open>None\<close> and the attribute access raises. With a demand rate of
  zero numpy divides to an infinity or a NaN: a negative margin gives minus infinity
  and the maximum is 0, every other margin leaves the rationals.
\<close>

definition population_ceiling :: "(rat \<times> ServiceType) option \<Rightarrow> error + rat" where
  "population_ceiling m =
     (case m of
        None \<Rightarrow> Inl AttributeError
      | Some (min_capacity_left, min_service) \<Rightarrow>
          if demand min_service = 0
          then (if min_capacity_left < 0 then Inr 0 else Inl NonFinite)
          else Inr (max (min_capacity_left / demand min_service * 1000) 0))"

text \<open>\<^verbatim>\<open>list(set(new) | set(orig))\<close>, in the order the set is iterated.\<close>

definition service_union :: "Externals \<Rightarrow> ServiceType list \<Rightarrow> ServiceType list \<Rightarrow> ServiceType list" where
  "service_union ext new orig = set_order ext (remdups (new @ orig))"

definition get_capacity_demand ::
  "Externals \<Rightarrow> BlockOptimizer \<Rightarrow> block_id \<Rightarrow> error + ((string \<rightharpoonup> local_constants) \<times> rat)" where
  "get_capacity_demand ext self selected_block_id =
     (let gdf0 = get_blocks_gdf (city_model self) in
      case map_of gdf0 selected_block_id of
        None \<Rightarrow> Inl KeyError
      | Some selected_block_gdf \<Rightarrow>
     (let gdf = zero_population selected_block_id gdf0 in
      case block (city_model self) selected_block_id of
        None \<Rightarrow> Inl KeyError
      | Some selected_block \<Rightarrow>
     (let acc_gdf = Accessibility_calculate ext selected_block_id in
      case NEW_SERVICE_TYPES self selected_block_id of
        None \<Rightarrow> Inl KeyError
      | Some new \<Rightarrow>
     (case ORIG_SERVICE_TYPES self selected_block_id of
        None \<Rightarrow> Inl KeyError
      | Some orig \<Rightarrow>
     (case estimator_loop ext gdf selected_block_gdf acc_gdf
             \<lparr>constants = Map.empty, min_found = None\<rparr> (service_union ext new orig) of
        Inl e \<Rightarrow> Inl e
      | Inr st \<Rightarrow>
          (case population_ceiling (min_found st) of
             Inl e \<Rightarrow> Inl e
           | Inr min_population \<Rightarrow> Inr (constants st, min_population)))))))"

section \<open>Facility catalog\<close>

definition get_bricks_df :: "ServiceType list \<Rightarrow> brick_row list" where
  "get_bricks_df service_types =
     concat (map (\<lambda>serv. map (\<lambda>brick. \<lparr>row_service_type = name serv,
                                        row_capacity = brick_capacity brick,
                                        row_area = brick_area brick\<rparr>) (bricks serv))
                 service_types)"

section \<open>Linear programs\<close>

text \<open>
  The variables of the program: \<^verbatim>\<open>LpVariable.dicts(f"{key}", list(bricks_df.index), ...)\<close>
  names the count of brick row \<open>n\<close> of block \<open>key\<close> \<^verbatim>\<open>{key}_{n}\<close>, and the population
  variable of the block is \<^verbatim>\<open>{key}_population\<close>.
\<close>

datatype var = BrickVar block_id nat | PopulationVar block_id

datatype LpCategory = LpContinuous | LpInteger

record LpVariable =
  var_name :: var
  lowBound :: "rat option"
  upBound :: "rat option"
  cat :: LpCategory

text \<open>
  An affine expression of pulp is a dict from variables to coefficients and a constant.
  Here the terms are a list in which a variable may occur more than once; its
  coefficient is the sum of its entries.
\<close>

record LpAffineExpression =
  lp_terms :: "(var \<times> rat) list"
  lp_constant :: rat

datatype LpSense = LpConstraintLE | LpConstraintGE | LpConstraintEQ

record LpConstraint =
  lhs :: LpAffineExpression
  sense :: LpSense
  rhs :: rat

text \<open>
  The program. pulp collects the variables of a program from its expressions; here they
  are recorded when the builder creates them, with the bounds and the category that it
  gives them.
\<close>

record LpProblem =
  variables :: "LpVariable list"
  constraints :: "LpConstraint list"
  objective :: LpAffineExpression

definition lp_zero :: LpAffineExpression where
  "lp_zero = \<lparr>lp_terms = [], lp_constant = 0\<rparr>"

definition lp_var :: "var \<Rightarrow> LpAffineExpression" where
  "lp_var v = \<lparr>lp_terms = [(v, 1)], lp_constant = 0\<rparr>"

text \<open>Multiplication by a number; pulp returns the empty expression for the factor 0.\<close>

definition lp_mul :: "LpAffineExpression \<Rightarrow> rat \<Rightarrow> LpAffineExpression" where
  "lp_mul e c =
     (if c \<noteq> 0 then \<lparr>lp_terms = map (\<lambda>(v, x). (v, c * x)) (lp_terms e), lp_constant = lp_constant e * c\<rparr>
      else lp_zero)"

text \<open>Division by a number that the caller has checked not to be 0.\<close>

definition lp_div :: "LpAffineExpression \<Rightarrow> rat \<Rightarrow> LpAffineExpression" where
  "lp_div e c = \<lparr>lp_terms = map (\<lambda>(v, x). (v, x / c)) (lp_terms e), lp_constant = lp_constant e / c\<rparr>"

definition lp_add :: "LpAffineExpression \<Rightarrow> LpAffineExpression \<Rightarrow> LpAffineExpression" where
  "lp_add e1 e2 = \<lparr>lp_terms = lp_terms e1 @ lp_terms e2, lp_constant = lp_constant e1 + lp_constant e2\<rparr>"

definition lp_add_const :: "LpAffineExpression \<Rightarrow> rat \<Rightarrow> LpAffineExpression" where
  "lp_add_const e c = e\<lparr>lp_constant := lp_constant e + c\<rparr>"

definition lp_sub :: "LpAffineExpression \<Rightarrow> LpAffineExpression \<Rightarrow> LpAffineExpression" where
  "lp_sub e1 e2 =
     \<lparr>lp_terms = lp_terms e1 @ map (\<lambda>(v, x). (v, - x)) (lp_terms e2), lp_constant = lp_constant e1 - lp_constant e2\<rparr>"

text \<open>\<^verbatim>\<open>lpSum\<close> and Python's \<^verbatim>\<open>sum\<close> of expressions: the sum from the left, starting at 0.\<close>

definition lpSum :: "LpAffineExpression list \<Rightarrow> LpAffineExpression" where
  "lpSum es = foldl lp_add lp_zero es"

text \<open>The variables that occur in an expression, which are the keys of the dict of pulp.\<close>

definition lp_vars :: "LpAffineExpression \<Rightarrow> var set" where
  "lp_vars e = fst ` set (lp_terms e)"

text \<open>
  \<^verbatim>\<open>prob.variables()\<close>: the variables that pulp collects from the objective and from the
  constraints. A variable that the builder creates and that occurs in none of them is
  not among them.
\<close>

definition prob_variables :: "LpProblem \<Rightarrow> var set" where
  "prob_variables prob = lp_vars (objective prob) \<union> (\<Union>c \<in> set (constraints prob). lp_vars (lhs c))"

text \<open>The value of an expression under an assignment of the variables.\<close>

definition lp_value :: "(var \<Rightarrow> rat) \<Rightarrow> LpAffineExpression \<Rightarrow> rat" where
  "lp_value a e = sum_list (map (\<lambda>(v, x). x * a v) (lp_terms e)) + lp_constant e"

definition is_integer :: "rat \<Rightarrow> bool" where
  "is_integer x = (of_int \<lfloor>x\<rfloor> = x)"

definition var_ok :: "(var \<Rightarrow> rat) \<Rightarrow> LpVariable \<Rightarrow> bool" where
  "var_ok a v =
     ((case lowBound v of None \<Rightarrow> True | Some l \<Rightarrow> l \<le> a (var_name v))
      \<and> (case upBound v of None \<Rightarrow> True | Some u \<Rightarrow> a (var_name v) \<le> u)
      \<and> (case cat v of LpInteger \<Rightarrow> is_integer (a (var_name v)) | LpContinuous \<Rightarrow> True))"

definition constraint_ok :: "(var \<Rightarrow> rat) \<Rightarrow> LpConstraint \<Rightarrow> bool" where
  "constraint_ok a c =
     (case sense c of
        LpConstraintLE \<Rightarrow> lp_value a (lhs c) \<le> rhs c
      | LpConstraintGE \<Rightarrow> lp_value a (lhs c) \<ge> rhs c
      | LpConstraintEQ \<Rightarrow> lp_value a (lhs c) = rhs c)"

text \<open>
  An assignment is feasible for a program when it respects the bounds and the category
  of every variable and satisfies every constraint. The assignment of a solve that
  reports the status optimal is feasible.
\<close>

definition feasible :: "LpProblem \<Rightarrow> (var \<Rightarrow> rat) \<Rightarrow> bool" where
  "feasible prob a = (list_all (var_ok a) (variables prob) \<and> list_all (constraint_ok a) (constraints prob))"

section \<open>Constraint model builder\<close>

text \<open>
  \<^verbatim>\<open>scenario_coef_sum\<close>: the sum of the scenario weights of the keys that are names of
  candidate service types of the block, 0 for an empty scenario.
\<close>

definition scenario_coef_sum :: "(string \<times> rat) list \<Rightarrow> ServiceType list \<Rightarrow> rat" where
  "scenario_coef_sum scenario new =
     (if length scenario \<noteq> 0
      then sum_list (map (\<lambda>k. case map_of scenario k of Some w \<Rightarrow> w | None \<Rightarrow> 0)
                         (filter (\<lambda>k. k \<in> set (map name new)) (remdups (map fst scenario))))
      else 0)"

text \<open>\<^verbatim>\<open>self.SCENARIO.get(serv.name, default_weight)\<close>.\<close>

definition service_weight :: "(string \<times> rat) list \<Rightarrow> rat \<Rightarrow> ServiceType \<Rightarrow> rat" where
  "service_weight scenario default_weight serv =
     (case map_of scenario (name serv) of Some w \<Rightarrow> w | None \<Rightarrow> default_weight)"

text \<open>\<^verbatim>\<open>list(bricks_df[bricks_df.service_type == serv.name].index)\<close>.\<close>

definition service_bricks_idxs :: "brick_row list \<Rightarrow> ServiceType \<Rightarrow> nat list" where
  "service_bricks_idxs bricks_df serv =
     filter (\<lambda>n. row_service_type (bricks_df ! n) = name serv) [0..<length bricks_df]"

text \<open>\<^verbatim>\<open>lpSum(service_counts[n] * bricks_df.loc[n].capacity for n in service_bricks_idxs)\<close>.\<close>

definition fit_function :: "block_id \<Rightarrow> brick_row list \<Rightarrow> ServiceType \<Rightarrow> LpAffineExpression" where
  "fit_function key bricks_df serv =
     lpSum (map (\<lambda>n. lp_mul (lp_var (BrickVar key n)) (row_capacity (bricks_df ! n)))
                (service_bricks_idxs bricks_df serv))"

text \<open>\<^verbatim>\<open>(population * serv.demand) / 1000\<close>.\<close>

definition demand_from_new_population :: "block_id \<Rightarrow> ServiceType \<Rightarrow> LpAffineExpression" where
  "demand_from_new_population key serv = lp_div (lp_mul (lp_var (PopulationVar key)) (demand serv)) 1000"

text \<open>
  The body of the loop over the candidate service types of a block appends to the
  objective components and to the constraints of the program. With
  \<^verbatim>\<open>C_i = fit_function + capacity_local\<close> and
  \<^verbatim>\<open>D_i = demand_local + demand_from_new_population\<close>, the component
  \<^verbatim>\<open>service_weight * (C_i - D_i)\<close> is appended under the first \<^verbatim>\<open>if\<close> only.
\<close>

definition service_components ::
  "block_id \<Rightarrow> brick_row list \<Rightarrow> local_constants \<Rightarrow> rat \<Rightarrow> ServiceType \<Rightarrow> LpAffineExpression list" where
  "service_components key bricks_df lc w serv =
     (let C_i = lp_add_const (fit_function key bricks_df serv) (capacity_local lc);
          D_i = lp_add_const (demand_from_new_population key serv) (demand_local lc)
      in if demand_local lc > 0 \<and> capacity_local lc < demand_local lc
         then [lp_mul (lp_sub C_i D_i) w] else [])"

definition deficit_constraint :: "block_id \<Rightarrow> brick_row list \<Rightarrow> local_constants \<Rightarrow> ServiceType \<Rightarrow> LpConstraint" where
  "deficit_constraint key bricks_df lc serv =
     \<lparr>lhs = fit_function key bricks_df serv, sense = LpConstraintLE,
      rhs = demand_local lc - capacity_local lc\<rparr>"

definition surplus_constraint :: "block_id \<Rightarrow> local_constants \<Rightarrow> ServiceType \<Rightarrow> LpConstraint" where
  "surplus_constraint key lc serv =
     \<lparr>lhs = demand_from_new_population key serv, sense = LpConstraintLE,
      rhs = capacity_local lc - demand_local lc\<rparr>"

definition service_constraints ::
  "block_id \<Rightarrow> LandUse \<Rightarrow> brick_row list \<Rightarrow> local_constants \<Rightarrow> ServiceType \<Rightarrow> LpConstraint list" where
  "service_constraints key lu bricks_df lc serv =
     (if demand_local lc > 0 \<and> capacity_local lc < demand_local lc
      then [deficit_constraint key bricks_df lc serv] else [])
     @ (if capacity_local lc > demand_local lc \<and> lu = RESIDENTIAL
        then [surplus_constraint key lc serv] else [])"

text \<open>
  What can raise in the loop body: \<^verbatim>\<open>bricks_df.service_type\<close> is an AttributeError on
  the table that \<^verbatim>\<open>pd.DataFrame([])\<close> builds, which has no columns, and
  \<^verbatim>\<open>constants[serv.name]\<close> is a KeyError for a name that the estimator has not seen.
\<close>

definition service_section ::
  "(string \<times> rat) list \<Rightarrow> block_id \<Rightarrow> LandUse \<Rightarrow> brick_row list \<Rightarrow> (string \<rightharpoonup> local_constants)
     \<Rightarrow> rat \<Rightarrow> ServiceType \<Rightarrow> error + (LpAffineExpression list \<times> LpConstraint list)" where
  "service_section scenario key lu bricks_df consts default_weight serv =
     (if bricks_df = [] then Inl AttributeError
      else case consts (name serv) of
        None \<Rightarrow> Inl KeyError
      | Some lc \<Rightarrow>
          Inr (service_components key bricks_df lc (service_weight scenario default_weight serv) serv,
               service_constraints key lu bricks_df lc serv))"

fun services_loop ::
  "(string \<times> rat) list \<Rightarrow> block_id \<Rightarrow> LandUse \<Rightarrow> brick_row list \<Rightarrow> (string \<rightharpoonup> local_constants)
     \<Rightarrow> rat \<Rightarrow> ServiceType list \<Rightarrow> error + (LpAffineExpression list \<times> LpConstraint list)" where
  "services_loop scenario key lu bricks_df consts default_weight [] = Inr ([], [])"
| "services_loop scenario key lu bricks_df consts default_weight (serv # rest) =
     (case service_section scenario key lu bricks_df consts default_weight serv of
        Inl e \<Rightarrow> Inl e
      | Inr (comps, cons) \<Rightarrow>
          (case services_loop scenario key lu bricks_df consts default_weight rest of
             Inl e \<Rightarrow> Inl e
           | Inr (comps', cons') \<Rightarrow> Inr (comps @ comps', cons @ cons')))"

text \<open>\<^verbatim>\<open>sum(service_counts[n] * bricks_df.loc[n].area / block_area for n in list(bricks_df.index))\<close>.\<close>

definition fsi_expression :: "block_id \<Rightarrow> brick_row list \<Rightarrow> rat \<Rightarrow> LpAffineExpression" where
  "fsi_expression key bricks_df block_area =
     lpSum (map (\<lambda>n. lp_div (lp_mul (lp_var (BrickVar key n)) (row_area (bricks_df ! n))) block_area)
                [0..<length bricks_df])"

text \<open>\<^verbatim>\<open>sum(service_counts[n] * bricks_df.loc[n].area for n in list(bricks_df.index))\<close>.\<close>

definition area_expression :: "block_id \<Rightarrow> brick_row list \<Rightarrow> LpAffineExpression" where
  "area_expression key bricks_df =
     lpSum (map (\<lambda>n. lp_mul (lp_var (BrickVar key n)) (row_area (bricks_df ! n))) [0..<length bricks_df])"

text \<open>
  The variables that the builder creates for a block: one count per brick row, from 0 to
  \<^verbatim>\<open>MAX_FACILITIES\<close>, and the population, from 0 without an upper bound; all integer.
\<close>

definition block_variables :: "int option \<Rightarrow> block_id \<Rightarrow> brick_row list \<Rightarrow> LpVariable list" where
  "block_variables max_facilities key bricks_df =
     map (\<lambda>n. \<lparr>var_name = BrickVar key n, lowBound = Some 0,
               upBound = map_option of_int max_facilities, cat = LpInteger\<rparr>) [0..<length bricks_df]
     @ [\<lparr>var_name = PopulationVar key, lowBound = Some 0, upBound = None, cat = LpInteger\<rparr>]"

text \<open>The three constraints that every block gets after the loop over its service types.\<close>

definition density_constraints :: "block_id \<Rightarrow> LandUse \<Rightarrow> brick_row list \<Rightarrow> rat \<Rightarrow> LpConstraint list" where
  "density_constraints key lu bricks_df block_area =
     (let indicators = LAND_USE_INDICATORS lu
      in [\<lparr>lhs = fsi_expression key bricks_df block_area, sense = LpConstraintLE, rhs = FSI_max indicators\<rparr>,
          \<lparr>lhs = fsi_expression key bricks_df block_area, sense = LpConstraintGE, rhs = FSI_min indicators\<rparr>,
          \<lparr>lhs = area_expression key bricks_df, sense = LpConstraintLE, rhs = block_area\<rparr>])"

text \<open>\<^verbatim>\<open>default_weight = (1 - scenario_coef_sum) / len(self.NEW_SERVICE_TYPES[key])\<close>.\<close>

definition default_weight_of :: "(string \<times> rat) list \<Rightarrow> ServiceType list \<Rightarrow> rat" where
  "default_weight_of scenario new = (1 - scenario_coef_sum scenario new) / of_nat (length new)"

text \<open>
  One pass of the loop of \<^verbatim>\<open>generate_lp_problem\<close> over the blocks. The default weight
  divides by the number of candidate service types and raises when there is none. The
  division by the site area comes after the loop over the service types, which has
  raised already when the catalog is empty; on a site area of 0 it raises or leaves
  the finite numbers, and the model returns the ZeroDivisionError.
\<close>

definition block_section ::
  "BlockOptimizer \<Rightarrow> block_id \<Rightarrow> LandUse
     \<Rightarrow> error + (LpVariable list \<times> LpAffineExpression list \<times> LpConstraint list)" where
  "block_section self key lu =
     (case NEW_SERVICE_TYPES self key of
        None \<Rightarrow> Inl KeyError
      | Some new \<Rightarrow>
     (if length new = 0 then Inl ZeroDivisionError
      else
     (case BRICKS self key of
        None \<Rightarrow> Inl KeyError
      | Some bricks_df \<Rightarrow>
     (case CONSTANTS self key of
        None \<Rightarrow> Inl KeyError
      | Some (consts, min_population) \<Rightarrow>
     (case services_loop (SCENARIO self) key lu bricks_df consts
             (default_weight_of (SCENARIO self) new) new of
        Inl e \<Rightarrow> Inl e
      | Inr (comps, cons) \<Rightarrow>
     (case block (city_model self) key of
        None \<Rightarrow> Inl KeyError
      | Some b \<Rightarrow>
          if site_area b = 0 then Inl ZeroDivisionError
          else Inr (block_variables (MAX_FACILITIES self) key bricks_df,
                    comps,
                    cons @ density_constraints key lu bricks_df (site_area b))))))))"

fun blocks_loop ::
  "BlockOptimizer \<Rightarrow> (block_id \<times> LandUse) list
     \<Rightarrow> error + (LpVariable list \<times> LpAffineExpression list \<times> LpConstraint list)" where
  "blocks_loop self [] = Inr ([], [], [])"
| "blocks_loop self ((key, lu) # rest) =
     (case block_section self key lu of
        Inl e \<Rightarrow> Inl e
      | Inr (vs, comps, cons) \<Rightarrow>
          (case blocks_loop self rest of
             Inl e \<Rightarrow> Inl e
           | Inr (vs', comps', cons') \<Rightarrow> Inr (vs @ vs', comps @ comps', cons @ cons')))"

definition generate_lp_problem :: "BlockOptimizer \<Rightarrow> error + LpProblem" where
  "generate_lp_problem self =
     (case blocks_loop self (BLOCKS_LANUSE_DICT self) of
        Inl e \<Rightarrow> Inl e
      | Inr (vs, lp_sum_components, cons) \<Rightarrow>
          Inr \<lparr>variables = vs, constraints = cons, objective = lpSum lp_sum_components\<rparr>)"

section \<open>Optimization engine and solution decoder\<close>

text \<open>
  The status of a solve, and \<^verbatim>\<open>LpStatus[prob.status]\<close>. The engine itself is outside
  the sources: a solve is a function from the program to a status and the values of the
  variables.
\<close>

datatype LpStatusCode = LpStatusNotSolved | LpStatusOptimal | LpStatusInfeasible
  | LpStatusUnbounded | LpStatusUndefined

fun LpStatus :: "LpStatusCode \<Rightarrow> string" where
  "LpStatus LpStatusNotSolved = ''Not Solved''"
| "LpStatus LpStatusOptimal = ''Optimal''"
| "LpStatus LpStatusInfeasible = ''Infeasible''"
| "LpStatus LpStatusUnbounded = ''Unbounded''"
| "LpStatus LpStatusUndefined = ''Undefined''"

type_synonym solver = "LpProblem \<Rightarrow> LpStatusCode \<times> (var \<Rightarrow> rat)"

text \<open>
  The decoder reads the value of every variable of \<^verbatim>\<open>prob.variables()\<close> into
  \<^verbatim>\<open>counts\<close>, which starts at zeros, or into \<^verbatim>\<open>populations\<close>, which is read with the
  default 0.
\<close>

definition solved_value :: "LpProblem \<Rightarrow> (var \<Rightarrow> rat) \<Rightarrow> var \<Rightarrow> rat" where
  "solved_value prob vals v = (if v \<in> prob_variables prob then vals v else 0)"

text \<open>A row of \<^verbatim>\<open>bricks_to_build_df[key]\<close>.\<close>

record built_row =
  built_brick :: brick_row
  capacity_agg :: rat
  area_agg :: rat
  service_counts :: rat
  demand_in_need :: rat

text \<open>
  The rows with a non-zero count, with the columns that the decoder adds. A service
  type of a built row that is not a key of \<open>constants\<close> raises a KeyError.
\<close>

fun built_rows ::
  "(string \<rightharpoonup> local_constants) \<Rightarrow> brick_row list \<Rightarrow> (nat \<Rightarrow> rat) \<Rightarrow> nat list \<Rightarrow> error + built_row list" where
  "built_rows consts bricks_df counts [] = Inr []"
| "built_rows consts bricks_df counts (n # rest) =
     (case consts (row_service_type (bricks_df ! n)) of
        None \<Rightarrow> Inl KeyError
      | Some lc \<Rightarrow>
          (case built_rows consts bricks_df counts rest of
             Inl e \<Rightarrow> Inl e
           | Inr rows \<Rightarrow>
               Inr (\<lparr>built_brick = bricks_df ! n,
                     capacity_agg = row_capacity (bricks_df ! n) * counts n,
                     area_agg = row_area (bricks_df ! n) * counts n,
                     service_counts = counts n,
                     demand_in_need = demand_local lc - capacity_local lc\<rparr> # rows)))"

text \<open>\<^verbatim>\<open>groupby("service_type").sum()["capacity_agg"].to_dict()\<close>.\<close>

definition group_capacities :: "built_row list \<Rightarrow> (string \<times> rat) list" where
  "group_capacities rows =
     map (\<lambda>t. (t, sum_list (map capacity_agg (filter (\<lambda>r. row_service_type (built_brick r) = t) rows))))
         (remdups (map (\<lambda>r. row_service_type (built_brick r)) rows))"

text \<open>
  The pass of the second loop of the decoder for a block. The first loop has written
  the column \<^verbatim>\<open>capacity_agg\<close> of the catalog at the rows of the brick variables that it
  has met; when it has met none of the block, the column is missing and
  \<^verbatim>\<open>groupby("service_type").sum()["capacity_agg"]\<close> raises a KeyError.
\<close>

definition block_update ::
  "BlockOptimizer \<Rightarrow> LpProblem \<Rightarrow> (var \<Rightarrow> rat) \<Rightarrow> block_id
     \<Rightarrow> error + ((string \<times> rat) list \<times> built_row list)" where
  "block_update self prob vals key =
     (case BRICKS self key of
        None \<Rightarrow> Inl KeyError
      | Some bricks_df \<Rightarrow>
     (let counts = (\<lambda>n. solved_value prob vals (BrickVar key n));
          bricks_to_build = filter (\<lambda>n. counts n \<noteq> 0) [0..<length bricks_df]
      in case CONSTANTS self key of
        None \<Rightarrow> Inl KeyError
      | Some (consts, min_population) \<Rightarrow>
     (case built_rows consts bricks_df counts bricks_to_build of
        Inl e \<Rightarrow> Inl e
      | Inr rows \<Rightarrow>
     (if list_all (\<lambda>n. BrickVar key n \<notin> prob_variables prob) [0..<length bricks_df]
      then Inl KeyError
      else
     (let service_capacities = group_capacities rows;
          pop = solved_value prob vals (PopulationVar key)
      in Inr (if pop > 0 then AList.update ''population'' pop service_capacities
              else service_capacities,
              rows))))))"

fun updates_loop ::
  "BlockOptimizer \<Rightarrow> LpProblem \<Rightarrow> (var \<Rightarrow> rat) \<Rightarrow> block_id list
     \<Rightarrow> error + ((block_id \<times> (string \<times> rat) list) list \<times> (block_id \<times> built_row list) list)" where
  "updates_loop self prob vals [] = Inr ([], [])"
| "updates_loop self prob vals (key # rest) =
     (case block_update self prob vals key of
        Inl e \<Rightarrow> Inl e
      | Inr (row, rows) \<Rightarrow>
          (case updates_loop self prob vals rest of
             Inl e \<Rightarrow> Inl e
           | Inr (update, to_build) \<Rightarrow> Inr ((key, row) # update, (key, rows) # to_build)))"

text \<open>
  \<^verbatim>\<open>get_optimal_update_df\<close>. When the objective has no variable, the solve of pulp has
  put its own variable \<^verbatim>\<open>__dummy\<close> into it, and \<^verbatim>\<open>prob.variables()\<close> returns that
  variable too, after the variables of the builder, whose names start with a digit. Its
  name has three parts between the underscores, and
  \<^verbatim>\<open>block_idx, idx = var.name.rsplit("_")\<close> raises a ValueError. Nothing raises before.
\<close>

definition get_optimal_update_df ::
  "BlockOptimizer \<Rightarrow> LpProblem \<Rightarrow> (var \<Rightarrow> rat)
     \<Rightarrow> error + (DataFrame \<times> (block_id \<times> built_row list) list \<times> rat)" where
  "get_optimal_update_df self prob vals =
     (if lp_terms (objective prob) = [] then Inl ValueError
      else case updates_loop self prob vals (map fst (BLOCKS_LANUSE_DICT self)) of
        Inl e \<Rightarrow> Inl e
      | Inr (update, bricks_to_build_df) \<Rightarrow>
          Inr (from_dict_index update, bricks_to_build_df, lp_value vals (objective prob)))"

section \<open>The pipeline\<close>

text \<open>The body of the first loop of \<^verbatim>\<open>calculate\<close>, which fills the context for one block.\<close>

definition prepare_block ::
  "Externals \<Rightarrow> BlockOptimizer \<Rightarrow> block_id \<Rightarrow> LandUse \<Rightarrow> error + BlockOptimizer" where
  "prepare_block ext self key lu =
     (case block (city_model self) key of
        None \<Rightarrow> Inl KeyError
      | Some b \<Rightarrow>
     (let orig_service_types = get_land_use_service_types (city_model self) (land_use b);
          new_service_types = get_land_use_service_types (city_model self) lu;
          self1 = self\<lparr>ORIG_SERVICE_TYPES := (ORIG_SERVICE_TYPES self)(key \<mapsto> orig_service_types),
                       NEW_SERVICE_TYPES := (NEW_SERVICE_TYPES self)(key \<mapsto> new_service_types)\<rparr>
      in case calculate_free_area self1 key of
        Inl e \<Rightarrow> Inl e
      | Inr free_area \<Rightarrow>
     (let self2 = self1\<lparr>FREE_AREA := (FREE_AREA self1)(key \<mapsto> free_area)\<rparr>
      in case get_capacity_demand ext self2 key of
        Inl e \<Rightarrow> Inl e
      | Inr cd \<Rightarrow>
          Inr (self2\<lparr>CONSTANTS := (CONSTANTS self2)(key \<mapsto> cd),
                     BRICKS := (BRICKS self2)(key \<mapsto> get_bricks_df new_service_types)\<rparr>))))"

fun prepare_loop ::
  "Externals \<Rightarrow> BlockOptimizer \<Rightarrow> (block_id \<times> LandUse) list \<Rightarrow> error + BlockOptimizer" where
  "prepare_loop ext self [] = Inr self"
| "prepare_loop ext self ((key, lu) # rest) =
     (case prepare_block ext self key lu of
        Inl e \<Rightarrow> Inl e
      | Inr self' \<Rightarrow> prepare_loop ext self' rest)"

text \<open>
  The rows of the single-row tables of \<^verbatim>\<open>get_deleting_update_df(key, True)\<close> for the
  blocks, and their \<^verbatim>\<open>pd.concat(dfs, ignore_index=True)\<close>, which numbers the rows from 0
  and raises a ValueError on an empty list.
\<close>

fun deleting_rows :: "City \<Rightarrow> block_id list \<Rightarrow> error + (string \<times> rat) list list" where
  "deleting_rows cm [] = Inr []"
| "deleting_rows cm (key # rest) =
     (case block cm key of
        None \<Rightarrow> Inl KeyError
      | Some b \<Rightarrow>
          (case deleting_rows cm rest of
             Inl e \<Rightarrow> Inl e
           | Inr rows \<Rightarrow> Inr (deleting_row b True # rows)))"

definition concat_ignore_index :: "(string \<times> rat) list list \<Rightarrow> error + DataFrame" where
  "concat_ignore_index rows =
     (if rows = [] then Inl ValueError
      else Inr (from_dict_index (zip [0..<length rows] rows)))"

record result =
  optimal_update_df :: DataFrame
  bricks_to_build_df :: "(block_id \<times> built_row list) list"
  deleting_df :: DataFrame
  provision :: rat

text \<open>
  Everything of \<^verbatim>\<open>calculate\<close> after the solve: the status is printed, then the decoder
  runs on the values of the variables and the demolition table is assembled.
\<close>

definition decode_and_bundle ::
  "BlockOptimizer \<Rightarrow> LpProblem \<Rightarrow> (var \<Rightarrow> rat) \<Rightarrow> error + result" where
  "decode_and_bundle self prob vals =
     (case get_optimal_update_df self prob vals of
        Inl e \<Rightarrow> Inl e
      | Inr (update_df, to_build, prov) \<Rightarrow>
     (case deleting_rows (city_model self) (map fst (BLOCKS_LANUSE_DICT self)) of
        Inl e \<Rightarrow> Inl e
      | Inr rows \<Rightarrow>
     (case concat_ignore_index rows of
        Inl e \<Rightarrow> Inl e
      | Inr combined_df \<Rightarrow>
          Inr \<lparr>optimal_update_df = fillna0 update_df,
               bricks_to_build_df = to_build,
               deleting_df = fillna0 combined_df,
               provision = prov\<rparr>)))"

text \<open>
  \<^verbatim>\<open>calculate\<close>: what it prints, and what it returns or raises. The attributes of the
  object are reset, filled block by block, the program is built and solved, the status
  is printed and the solution is decoded.
\<close>

definition initial_context ::
  "City \<Rightarrow> (block_id \<times> LandUse) list \<Rightarrow> (string \<times> rat) list \<Rightarrow> int option \<Rightarrow> BlockOptimizer" where
  "initial_context cm blocks_landuse_dict scenario max_facilities =
     \<lparr>city_model = cm, BLOCKS_LANUSE_DICT = blocks_landuse_dict,
      ORIG_SERVICE_TYPES = Map.empty, NEW_SERVICE_TYPES = Map.empty,
      FREE_AREA = Map.empty, BRICKS = Map.empty, CONSTANTS = Map.empty,
      SCENARIO = scenario, MAX_FACILITIES = max_facilities\<rparr>"

definition calculate ::
  "Externals \<Rightarrow> solver \<Rightarrow> City \<Rightarrow> (block_id \<times> LandUse) list \<Rightarrow> (string \<times> rat) list \<Rightarrow> int option
     \<Rightarrow> string list \<times> (error + result)" where
  "calculate ext solve cm blocks_landuse_dict scenario max_facilities =
     (case prepare_loop ext (initial_context cm blocks_landuse_dict scenario max_facilities)
             blocks_landuse_dict of
        Inl e \<Rightarrow> ([], Inl e)
      | Inr self \<Rightarrow>
     (case generate_lp_problem self of
        Inl e \<Rightarrow> ([], Inl e)
      | Inr prob \<Rightarrow>
     (case solve prob of
        (status, vals) \<Rightarrow> ([LpStatus status], decode_and_bundle self prob vals))))"

text \<open>
  The combine step of \<^verbatim>\<open>get_provision_diff\<close>:
  \<^verbatim>\<open>optimal_update_df.combine_first(self.get_deleting_update_df(SELECTED_BLOCK, True))\<close>.
\<close>

definition combine_step :: "City \<Rightarrow> block_id \<Rightarrow> DataFrame \<Rightarrow> error + DataFrame" where
  "combine_step cm selected_block update_df =
     (case get_deleting_update_df cm selected_block True of
        Inl e \<Rightarrow> Inl e
      | Inr deleting_update_df \<Rightarrow> Inr (combine_first update_df deleting_update_df))"

section \<open>Notions of the specification\<close>

text \<open>
  The delta that an update table holds for a block and a column: 0 where the table has
  no entry or a NaN, which is how \<^verbatim>\<open>fillna(0)\<close> reads it.
\<close>

definition entry :: "DataFrame \<Rightarrow> nat \<Rightarrow> string \<Rightarrow> rat" where
  "entry df r c = (case cell df r c of None \<Rightarrow> 0 | Some v \<Rightarrow> v)"

text \<open>
  What the first loop of \<^verbatim>\<open>calculate\<close> leaves in the context for a block of the land-use
  assignment: the candidate service types of the target land use, their catalog, and
  constants for the name of each of them.
\<close>

definition prepared :: "BlockOptimizer \<Rightarrow> block_id \<Rightarrow> LandUse \<Rightarrow> bool" where
  "prepared self key lu =
     (let new = get_land_use_service_types (city_model self) lu
      in block (city_model self) key \<noteq> None
         \<and> NEW_SERVICE_TYPES self key = Some new
         \<and> BRICKS self key = Some (get_bricks_df new)
         \<and> (case CONSTANTS self key of
               None \<Rightarrow> False
             | Some (cs, min_population) \<Rightarrow> list_all (\<lambda>serv. cs (name serv) \<noteq> None) new))"

text \<open>An entry of the allocation update that \<^verbatim>\<open>calculate\<close> returns, if it returns.\<close>

definition update_entry :: "error + result \<Rightarrow> nat \<Rightarrow> string \<Rightarrow> error + rat option" where
  "update_entry res r c = (case res of Inl e \<Rightarrow> Inl e | Inr bundle \<Rightarrow> Inr (cell (optimal_update_df bundle) r c))"

text \<open>
  The population and the capacity of a block in the table of blocks, and the catchment
  of a service type around the selected block: the blocks whose accessibility cost to or
  from it is at most the threshold of the service type.
\<close>

definition block_population :: "City \<Rightarrow> block_id \<Rightarrow> rat" where
  "block_population cm b = (case map_of (get_blocks_gdf cm) b of None \<Rightarrow> 0 | Some r \<Rightarrow> gdf_population r)"

definition block_capacity :: "City \<Rightarrow> block_id \<Rightarrow> string \<Rightarrow> rat" where
  "block_capacity cm b n = (case map_of (get_blocks_gdf cm) b of None \<Rightarrow> 0 | Some r \<Rightarrow> gdf_capacity r n)"

definition catchment :: "Externals \<Rightarrow> block_id \<Rightarrow> ServiceType \<Rightarrow> block_id set" where
  "catchment ext selected_block_id serv =
     acc_id ` {r \<in> set (Accessibility_calculate ext selected_block_id).
                accessibility_to r \<le> accessibility serv \<or> accessibility_from r \<le> accessibility serv}"

text \<open>
  The global margin of a service type: the capacity of all blocks without that of the
  selected block, minus the demand of all blocks with the population of the selected
  block read as zero.
\<close>

definition global_margin :: "Externals \<Rightarrow> City \<Rightarrow> block_id \<Rightarrow> ServiceType \<Rightarrow> rat" where
  "global_margin ext cm selected_block_id serv =
     ((\<Sum>(i, r)\<leftarrow>get_blocks_gdf cm. gdf_capacity r (name serv))
        - block_capacity cm selected_block_id (name serv))
     - (\<Sum>(i, r)\<leftarrow>get_blocks_gdf cm.
          calculate_in_need ext serv (if i = selected_block_id then 0 else gdf_population r))"

text \<open>Python iterates every element of a set once: the order of a list without repetitions.\<close>

definition is_set_order :: "Externals \<Rightarrow> ServiceType list \<Rightarrow> bool" where
  "is_set_order ext servs = (set (set_order ext servs) = set servs \<and> distinct (set_order ext servs))"

text \<open>
  Under an assignment of the variables: the capacity built for a service type in a block,
  the demand added by the new population, and the area built in the block.
\<close>

definition built_capacity :: "(var \<Rightarrow> rat) \<Rightarrow> block_id \<Rightarrow> brick_row list \<Rightarrow> ServiceType \<Rightarrow> rat" where
  "built_capacity a key bricks_df serv =
     (\<Sum>n\<leftarrow>service_bricks_idxs bricks_df serv. a (BrickVar key n) * row_capacity (bricks_df ! n))"

definition added_demand :: "(var \<Rightarrow> rat) \<Rightarrow> block_id \<Rightarrow> ServiceType \<Rightarrow> rat" where
  "added_demand a key serv = a (PopulationVar key) * demand serv / 1000"

definition built_area :: "(var \<Rightarrow> rat) \<Rightarrow> block_id \<Rightarrow> brick_row list \<Rightarrow> rat" where
  "built_area a key bricks_df =
     (\<Sum>n\<leftarrow>[0..<length bricks_df]. a (BrickVar key n) * row_area (bricks_df ! n))"

definition in_deficit :: "local_constants \<Rightarrow> bool" where
  "in_deficit lc = (demand_local lc > 0 \<and> capacity_local lc < demand_local lc)"

text \<open>The condition that holds of every pair of a block and a service type.\<close>

definition any_pair :: "local_constants \<Rightarrow> bool" where
  "any_pair lc = True"

text \<open>
  The term \<open>weight \<times> (C - D)\<close> of a block and a candidate service type, with
  \<open>C = built_capacity + capacity_local\<close> and \<open>D = demand_local + added_demand\<close>.
\<close>

definition weighted_surplus ::
  "(string \<times> rat) list \<Rightarrow> (var \<Rightarrow> rat) \<Rightarrow> block_id \<Rightarrow> brick_row list \<Rightarrow> ServiceType list
     \<Rightarrow> local_constants \<Rightarrow> ServiceType \<Rightarrow> rat" where
  "weighted_surplus scenario a key bricks_df new lc serv =
     service_weight scenario (default_weight_of scenario new) serv
       * ((built_capacity a key bricks_df serv + capacity_local lc)
          - (demand_local lc + added_demand a key serv))"

text \<open>
  The sum of these terms over the candidate service types of a block whose constants
  satisfy \<open>P\<close>, and over all blocks of the land-use assignment.
\<close>

definition block_pairs_sum ::
  "(local_constants \<Rightarrow> bool) \<Rightarrow> BlockOptimizer \<Rightarrow> (var \<Rightarrow> rat) \<Rightarrow> block_id \<Rightarrow> rat" where
  "block_pairs_sum P self a key =
     (case NEW_SERVICE_TYPES self key of None \<Rightarrow> 0 | Some new \<Rightarrow>
     (case BRICKS self key of None \<Rightarrow> 0 | Some bricks_df \<Rightarrow>
     (case CONSTANTS self key of None \<Rightarrow> 0 | Some (consts, min_population) \<Rightarrow>
        (\<Sum>serv\<leftarrow>new. (case consts (name serv) of
                           None \<Rightarrow> 0
                         | Some lc \<Rightarrow> (if P lc
                                       then weighted_surplus (SCENARIO self) a key bricks_df new lc serv
                                       else 0))))))"

definition pairs_sum :: "(local_constants \<Rightarrow> bool) \<Rightarrow> BlockOptimizer \<Rightarrow> (var \<Rightarrow> rat) \<Rightarrow> rat" where
  "pairs_sum P self a = (\<Sum>(key, lu)\<leftarrow>BLOCKS_LANUSE_DICT self. block_pairs_sum P self a key)"

text \<open>The value of the objective of the program that the builder generates, if it generates one.\<close>

definition objective_value :: "BlockOptimizer \<Rightarrow> (var \<Rightarrow> rat) \<Rightarrow> rat option" where
  "objective_value self a =
     (case generate_lp_problem self of Inl e \<Rightarrow> None | Inr prob \<Rightarrow> Some (lp_value a (objective prob)))"

section \<open>Concrete cities\<close>

definition school :: ServiceType where
  "school = \<lparr>name = ''school'', demand = 120, accessibility = 15,
             bricks = [\<lparr>brick_capacity = 50, brick_area = 500\<rparr>]\<rparr>"

definition polyclinic :: ServiceType where
  "polyclinic = \<lparr>name = ''polyclinic'', demand = 13, accessibility = 10, bricks = []\<rparr>"

definition cafe :: ServiceType where
  "cafe = \<lparr>name = ''cafe'', demand = 10, accessibility = 30,
           bricks = [\<lparr>brick_capacity = 20, brick_area = 100\<rparr>]\<rparr>"

text \<open>
  Demand in proportion to the population, the accessibility tables of the concrete
  cities (block 7 reaches itself at cost 0 and block 8 at costs 10 and 20), and a set
  order that keeps the list.
\<close>

definition ext_ex :: Externals where
  "ext_ex =
     \<lparr>Accessibility_calculate =
        (\<lambda>b. [\<lparr>acc_id = 7, accessibility_to = 0, accessibility_from = 0\<rparr>,
              \<lparr>acc_id = 8, accessibility_to = 10, accessibility_from = 20\<rparr>]),
      calculate_in_need = (\<lambda>serv p. p * demand serv / 1000),
      set_order = (\<lambda>servs. servs)\<rparr>"

text \<open>
  A city of two blocks. Block 7, of 1000 square metres, holds a school of capacity 10 and
  100 inhabitants; block 8 holds a cafe of capacity 30 and 1000 inhabitants. Residential
  land use comes with schools, polyclinics and cafes.
\<close>

definition city_A :: City where
  "city_A =
     \<lparr>block = [7 \<mapsto> \<lparr>site_area = 1000, land_use = RECREATION, population = 100,
                      all_services = [\<lparr>service_type = ''school'', capacity = 10\<rparr>]\<rparr>,
               8 \<mapsto> \<lparr>site_area = 2000, land_use = BUSINESS, population = 1000,
                      all_services = [\<lparr>service_type = ''cafe'', capacity = 30\<rparr>]\<rparr>],
      get_land_use_service_types = (\<lambda>lu. if lu = RESIDENTIAL then [school, polyclinic, cafe] else []),
      get_blocks_gdf =
        [(7, \<lparr>gdf_population = 100, gdf_capacity = (\<lambda>n. if n = ''school'' then 10 else 0)\<rparr>),
         (8, \<lparr>gdf_population = 1000, gdf_capacity = (\<lambda>n. if n = ''cafe'' then 30 else 0)\<rparr>)]\<rparr>"

text \<open>The context that \<^verbatim>\<open>calculate\<close> fills for block 7 of this city turning residential.\<close>

definition self_A :: BlockOptimizer where
  "self_A =
     \<lparr>city_model = city_A,
      BLOCKS_LANUSE_DICT = [(7, RESIDENTIAL)],
      ORIG_SERVICE_TYPES = [7 \<mapsto> []],
      NEW_SERVICE_TYPES = [7 \<mapsto> [school, polyclinic, cafe]],
      FREE_AREA = [7 \<mapsto> 800],
      BRICKS = [7 \<mapsto> [\<lparr>row_service_type = ''school'', row_capacity = 50, row_area = 500\<rparr>,
                        \<lparr>row_service_type = ''cafe'', row_capacity = 20, row_area = 100\<rparr>]],
      CONSTANTS = [7 \<mapsto> ([''school'' \<mapsto> \<lparr>demand_local = 120, capacity_local = 0\<rparr>,
                              ''polyclinic'' \<mapsto> \<lparr>demand_local = 13, capacity_local = 0\<rparr>,
                              ''cafe'' \<mapsto> \<lparr>demand_local = 10, capacity_local = 30\<rparr>], 0)],
      SCENARIO = [],
      MAX_FACILITIES = Some 5\<rparr>"

text \<open>The constants that the estimator computes for block 7 of this city.\<close>

definition constants_A :: "string \<rightharpoonup> local_constants" where
  "constants_A = [''school'' \<mapsto> \<lparr>demand_local = 120, capacity_local = 0\<rparr>,
                  ''polyclinic'' \<mapsto> \<lparr>demand_local = 13, capacity_local = 0\<rparr>,
                  ''cafe'' \<mapsto> \<lparr>demand_local = 10, capacity_local = 30\<rparr>]"

text \<open>The program that the builder generates for it.\<close>

definition prob_A :: LpProblem where
  "prob_A =
     \<lparr>variables =
        [\<lparr>var_name = BrickVar 7 0, lowBound = Some 0, upBound = Some 5, cat = LpInteger\<rparr>,
         \<lparr>var_name = BrickVar 7 1, lowBound = Some 0, upBound = Some 5, cat = LpInteger\<rparr>,
         \<lparr>var_name = PopulationVar 7, lowBound = Some 0, upBound = None, cat = LpInteger\<rparr>],
      constraints =
        [\<lparr>lhs = \<lparr>lp_terms = [(BrickVar 7 0, 50)], lp_constant = 0\<rparr>, sense = LpConstraintLE, rhs = 120\<rparr>,
         \<lparr>lhs = \<lparr>lp_terms = [], lp_constant = 0\<rparr>, sense = LpConstraintLE, rhs = 13\<rparr>,
         \<lparr>lhs = \<lparr>lp_terms = [(PopulationVar 7, 1 / 100)], lp_constant = 0\<rparr>,
          sense = LpConstraintLE, rhs = 20\<rparr>,
         \<lparr>lhs = \<lparr>lp_terms = [(BrickVar 7 0, 1 / 2), (BrickVar 7 1, 1 / 10)], lp_constant = 0\<rparr>,
          sense = LpConstraintLE, rhs = 3\<rparr>,
         \<lparr>lhs = \<lparr>lp_terms = [(BrickVar 7 0, 1 / 2), (BrickVar 7 1, 1 / 10)], lp_constant = 0\<rparr>,
          sense = LpConstraintGE, rhs = 1 / 2\<rparr>,
         \<lparr>lhs = \<lparr>lp_terms = [(BrickVar 7 0, 500), (BrickVar 7 1, 100)], lp_constant = 0\<rparr>,
          sense = LpConstraintLE, rhs = 1000\<rparr>],
      objective =
        \<lparr>lp_terms = [(BrickVar 7 0, 50 / 3), (PopulationVar 7, - (1 / 25)),
                    (PopulationVar 7, - (13 / 3000))],
         lp_constant = - (133 / 3)\<rparr>\<rparr>"

text \<open>An assignment for it: two school bricks, no cafe brick, no new population.\<close>

definition vals_A :: "var \<Rightarrow> rat" where
  "vals_A v = (if v = BrickVar 7 0 then 2 else 0)"

text \<open>The solve of the program of city A: the assignment above is its optimum.\<close>

definition solve_A :: solver where
  "solve_A prob = (LpStatusOptimal, vals_A)"

text \<open>
  The scenario of the specification: one block of 10000 square metres turning from
  recreation to residential, one brick of capacity 50 and area 500.
\<close>

definition city_B :: City where
  "city_B =
     \<lparr>block = [7 \<mapsto> \<lparr>site_area = 10000, land_use = RECREATION, population = 0, all_services = []\<rparr>],
      get_land_use_service_types = (\<lambda>lu. if lu = RESIDENTIAL then [school] else []),
      get_blocks_gdf = [(7, \<lparr>gdf_population = 0, gdf_capacity = (\<lambda>n. 0)\<rparr>)]\<rparr>"

definition ext_B :: Externals where
  "ext_B = ext_ex\<lparr>Accessibility_calculate :=
             (\<lambda>b. [\<lparr>acc_id = 7, accessibility_to = 0, accessibility_from = 0\<rparr>])\<rparr>"

definition self_B :: BlockOptimizer where
  "self_B =
     \<lparr>city_model = city_B,
      BLOCKS_LANUSE_DICT = [(7, RESIDENTIAL)],
      ORIG_SERVICE_TYPES = [7 \<mapsto> []],
      NEW_SERVICE_TYPES = [7 \<mapsto> [school]],
      FREE_AREA = [7 \<mapsto> 8000],
      BRICKS = [7 \<mapsto> [\<lparr>row_service_type = ''school'', row_capacity = 50, row_area = 500\<rparr>]],
      CONSTANTS = [7 \<mapsto> ([''school'' \<mapsto> \<lparr>demand_local = 0, capacity_local = 0\<rparr>], 0)],
      SCENARIO = [],
      MAX_FACILITIES = Some 5\<rparr>"

definition prob_B :: LpProblem where
  "prob_B =
     \<lparr>variables =
        [\<lparr>var_name = BrickVar 7 0, lowBound = Some 0, upBound = Some 5, cat = LpInteger\<rparr>,
         \<lparr>var_name = PopulationVar 7, lowBound = Some 0, upBound = None, cat = LpInteger\<rparr>],
      constraints =
        [\<lparr>lhs = \<lparr>lp_terms = [(BrickVar 7 0, 1 / 20)], lp_constant = 0\<rparr>, sense = LpConstraintLE, rhs = 3\<rparr>,
         \<lparr>lhs = \<lparr>lp_terms = [(BrickVar 7 0, 1 / 20)], lp_constant = 0\<rparr>, sense = LpConstraintGE, rhs = 1 / 2\<rparr>,
         \<lparr>lhs = \<lparr>lp_terms = [(BrickVar 7 0, 500)], lp_constant = 0\<rparr>, sense = LpConstraintLE, rhs = 10000\<rparr>],
      objective = \<lparr>lp_terms = [], lp_constant = 0\<rparr>\<rparr>"

text \<open>An assignment for it: five bricks.\<close>

definition vals_B :: "var \<Rightarrow> rat" where
  "vals_B v = (if v = BrickVar 7 0 then 5 else 0)"

text \<open>
  City A without polyclinics and with 10000 square metres for block 7. With at most five
  bricks of a kind, and at most two school bricks for the 120 places that lack, no more
  than 1500 square metres can be built, and the floor-area ratio of residential land
  needs 5000.
\<close>

definition city_D :: City where
  "city_D =
     \<lparr>block = [7 \<mapsto> \<lparr>site_area = 10000, land_use = RECREATION, population = 100,
                      all_services = [\<lparr>service_type = ''school'', capacity = 10\<rparr>]\<rparr>,
               8 \<mapsto> \<lparr>site_area = 2000, land_use = BUSINESS, population = 1000,
                      all_services = [\<lparr>service_type = ''cafe'', capacity = 30\<rparr>]\<rparr>],
      get_land_use_service_types = (\<lambda>lu. if lu = RESIDENTIAL then [school, cafe] else []),
      get_blocks_gdf =
        [(7, \<lparr>gdf_population = 100, gdf_capacity = (\<lambda>n. if n = ''school'' then 10 else 0)\<rparr>),
         (8, \<lparr>gdf_population = 1000, gdf_capacity = (\<lambda>n. if n = ''cafe'' then 30 else 0)\<rparr>)]\<rparr>"

definition self_D :: BlockOptimizer where
  "self_D =
     \<lparr>city_model = city_D,
      BLOCKS_LANUSE_DICT = [(7, RESIDENTIAL)],
      ORIG_SERVICE_TYPES = [7 \<mapsto> []],
      NEW_SERVICE_TYPES = [7 \<mapsto> [school, cafe]],
      FREE_AREA = [7 \<mapsto> 8000],
      BRICKS = [7 \<mapsto> [\<lparr>row_service_type = ''school'', row_capacity = 50, row_area = 500\<rparr>,
                        \<lparr>row_service_type = ''cafe'', row_capacity = 20, row_area = 100\<rparr>]],
      CONSTANTS = [7 \<mapsto> ([''school'' \<mapsto> \<lparr>demand_local = 120, capacity_local = 0\<rparr>,
                              ''cafe'' \<mapsto> \<lparr>demand_local = 10, capacity_local = 30\<rparr>], 0)],
      SCENARIO = [],
      MAX_FACILITIES = Some 5\<rparr>"

definition prob_D :: LpProblem where
  "prob_D =
     \<lparr>variables =
        [\<lparr>var_name = BrickVar 7 0, lowBound = Some 0, upBound = Some 5, cat = LpInteger\<rparr>,
         \<lparr>var_name = BrickVar 7 1, lowBound = Some 0, upBound = Some 5, cat = LpInteger\<rparr>,
         \<lparr>var_name = PopulationVar 7, lowBound = Some 0, upBound = None, cat = LpInteger\<rparr>],
      constraints =
        [\<lparr>lhs = \<lparr>lp_terms = [(BrickVar 7 0, 50)], lp_constant = 0\<rparr>, sense = LpConstraintLE, rhs = 120\<rparr>,
         \<lparr>lhs = \<lparr>lp_terms = [(PopulationVar 7, 1 / 100)], lp_constant = 0\<rparr>,
          sense = LpConstraintLE, rhs = 20\<rparr>,
         \<lparr>lhs = \<lparr>lp_terms = [(BrickVar 7 0, 1 / 20), (BrickVar 7 1, 1 / 100)], lp_constant = 0\<rparr>,
          sense = LpConstraintLE, rhs = 3\<rparr>,
         \<lparr>lhs = \<lparr>lp_terms = [(BrickVar 7 0, 1 / 20), (BrickVar 7 1, 1 / 100)], lp_constant = 0\<rparr>,
          sense = LpConstraintGE, rhs = 1 / 2\<rparr>,
         \<lparr>lhs = \<lparr>lp_terms = [(BrickVar 7 0, 500), (BrickVar 7 1, 100)], lp_constant = 0\<rparr>,
          sense = LpConstraintLE, rhs = 10000\<rparr>],
      objective =
        \<lparr>lp_terms = [(BrickVar 7 0, 25), (PopulationVar 7, - (3 / 50))],
         lp_constant = - 60\<rparr>\<rparr>"

text \<open>
  Two school bricks and five cafe bricks; a solve that reports the program infeasible
  and leaves them in the variables, and one that leaves them and reports it optimal.
\<close>

definition vals_D :: "var \<Rightarrow> rat" where
  "vals_D v = (if v = BrickVar 7 0 then 2 else if v = BrickVar 7 1 then 5 else 0)"

definition solve_infeasible :: solver where
  "solve_infeasible prob = (LpStatusInfeasible, vals_D)"

definition solve_same_values :: solver where
  "solve_same_values prob = (LpStatusOptimal, vals_D)"

text \<open>
  A city in which two service types have the same global margin around block 7: cafes,
  14 places for a demand of 10, and gyms, 44 places for a demand of 40. The two orders
  in which the set of the two can be iterated.
\<close>

definition gym :: ServiceType where
  "gym = \<lparr>name = ''gym'', demand = 40, accessibility = 30, bricks = []\<rparr>"

definition city_T :: City where
  "city_T =
     \<lparr>block = [7 \<mapsto> \<lparr>site_area = 1000, land_use = RECREATION, population = 100, all_services = []\<rparr>,
               8 \<mapsto> \<lparr>site_area = 2000, land_use = BUSINESS, population = 1000,
                      all_services = [\<lparr>service_type = ''cafe'', capacity = 14\<rparr>,
                                      \<lparr>service_type = ''gym'', capacity = 44\<rparr>]\<rparr>],
      get_land_use_service_types = (\<lambda>lu. if lu = RESIDENTIAL then [cafe, gym] else []),
      get_blocks_gdf =
        [(7, \<lparr>gdf_population = 100, gdf_capacity = (\<lambda>n. 0)\<rparr>),
         (8, \<lparr>gdf_population = 1000,
              gdf_capacity = (\<lambda>n. if n = ''cafe'' then 14 else if n = ''gym'' then 44 else 0)\<rparr>)]\<rparr>"

definition self_T :: BlockOptimizer where
  "self_T = (initial_context city_T [(7, RESIDENTIAL)] [] None)
              \<lparr>ORIG_SERVICE_TYPES := [7 \<mapsto> []], NEW_SERVICE_TYPES := [7 \<mapsto> [cafe, gym]]\<rparr>"

definition ext_rev :: Externals where
  "ext_rev = ext_ex\<lparr>set_order := rev\<rparr>"

text \<open>The same city when residential land use comes with polyclinics only, which have no brick.\<close>

definition city_C :: City where
  "city_C = city_B\<lparr>get_land_use_service_types := (\<lambda>lu. if lu = RESIDENTIAL then [polyclinic] else [])\<rparr>"

definition solve_optimal_zero :: solver where
  "solve_optimal_zero prob = (LpStatusOptimal, (\<lambda>v. 0))"

text \<open>A block with two installed schools.\<close>

definition city_two_schools :: City where
  "city_two_schools =
     \<lparr>block = [1 \<mapsto> \<lparr>site_area = 10000, land_use = RECREATION, population = 100,
                      all_services = [\<lparr>service_type = ''school'', capacity = 10\<rparr>,
                                      \<lparr>service_type = ''school'', capacity = 7\<rparr>]\<rparr>],
      get_land_use_service_types = (\<lambda>lu. []),
      get_blocks_gdf = []\<rparr>"

section \<open>Values of expressions\<close>

lemma lp_value_zero [simp]: "lp_value a lp_zero = 0"
  by (simp add: lp_value_def lp_zero_def)

lemma lp_value_var [simp]: "lp_value a (lp_var v) = a v"
  by (simp add: lp_value_def lp_var_def)

lemma sum_list_scale:
  "(\<Sum>p\<leftarrow>ts. c * (snd p * a (fst p))) = c * (\<Sum>p\<leftarrow>ts. snd p * (a (fst p) :: rat))"
  by (induction ts) (auto simp: algebra_simps)

lemma lp_value_mul [simp]: "lp_value a (lp_mul e c) = c * lp_value a e"
  by (simp add: lp_value_def lp_mul_def lp_zero_def comp_def case_prod_unfold sum_list_scale algebra_simps)

lemma sum_list_div:
  "(\<Sum>p\<leftarrow>ts. snd p * a (fst p) / c) = (\<Sum>p\<leftarrow>ts. snd p * (a (fst p) :: rat)) / c"
  by (induction ts) (auto simp: add_divide_distrib)

lemma lp_value_div [simp]: "lp_value a (lp_div e c) = lp_value a e / c"
  by (simp add: lp_value_def lp_div_def comp_def case_prod_unfold sum_list_div add_divide_distrib)

lemma lp_value_add [simp]: "lp_value a (lp_add e1 e2) = lp_value a e1 + lp_value a e2"
  by (simp add: lp_value_def lp_add_def)

lemma lp_value_add_const [simp]: "lp_value a (lp_add_const e c) = lp_value a e + c"
  by (simp add: lp_value_def lp_add_const_def)

lemma sum_list_neg:
  "(\<Sum>p\<leftarrow>ts. - (snd p * a (fst p))) = - (\<Sum>p\<leftarrow>ts. snd p * (a (fst p) :: rat))"
  by (induction ts) auto

lemma lp_value_sub [simp]: "lp_value a (lp_sub e1 e2) = lp_value a e1 - lp_value a e2"
  by (simp add: lp_value_def lp_sub_def comp_def case_prod_unfold sum_list_neg)

lemma lp_value_foldl: "lp_value a (foldl lp_add e es) = lp_value a e + sum_list (map (lp_value a) es)"
  by (induction es arbitrary: e) auto

lemma lp_value_lpSum [simp]: "lp_value a (lpSum es) = sum_list (map (lp_value a) es)"
  by (simp add: lpSum_def lp_value_foldl)

section \<open>Shape of a generated program\<close>

lemma lp_value_fit_function: "lp_value a (fit_function key bricks_df serv) = built_capacity a key bricks_df serv"
  by (simp add: fit_function_def built_capacity_def comp_def mult.commute)

lemma lp_value_demand_from_new_population:
  "lp_value a (demand_from_new_population key serv) = added_demand a key serv"
  by (simp add: demand_from_new_population_def added_demand_def mult.commute)

lemma sum_list_divide: "(\<Sum>x\<leftarrow>xs. f x / c) = (\<Sum>x\<leftarrow>xs. (f x :: rat)) / c"
  by (induction xs) (auto simp: add_divide_distrib)

lemma lp_value_fsi_expression:
  "lp_value a (fsi_expression key bricks_df block_area) = built_area a key bricks_df / block_area"
  by (simp add: fsi_expression_def built_area_def comp_def mult.commute sum_list_divide)

lemma lp_value_area_expression: "lp_value a (area_expression key bricks_df) = built_area a key bricks_df"
  by (simp add: area_expression_def built_area_def comp_def mult.commute)


lemma blocks_loop_Inr:
  assumes "blocks_loop self bl = Inr (vs, comps, cons)" and "(key, lu) \<in> set bl"
  shows "\<exists>vs' comps' cons'. block_section self key lu = Inr (vs', comps', cons')
           \<and> set vs' \<subseteq> set vs \<and> set comps' \<subseteq> set comps \<and> set cons' \<subseteq> set cons"
  using assms
proof (induction bl arbitrary: vs comps cons)
  case Nil
  then show ?case by simp
next
  case (Cons p rest)
  obtain k l where p: "p = (k, l)" by (cases p)
  from Cons.prems(1) p obtain v1 c1 k1 v2 c2 k2 where
    sec: "block_section self k l = Inr (v1, c1, k1)"
    and rest: "blocks_loop self rest = Inr (v2, c2, k2)"
    and eq: "vs = v1 @ v2" "comps = c1 @ c2" "cons = k1 @ k2"
    by (auto split: sum.splits prod.splits)
  show ?case
  proof (cases "(key, lu) = p")
    case True
    with sec eq p show ?thesis by auto
  next
    case False
    with Cons.prems(2) have "(key, lu) \<in> set rest" by simp
    from Cons.IH [OF rest this] eq show ?thesis by auto
  qed
qed

text \<open>What a block section that does not raise is made of.\<close>

lemma block_section_Inr:
  assumes "block_section self key lu = Inr (vs, comps, cons)"
  obtains new bdf cs mp b cons' where
    "NEW_SERVICE_TYPES self key = Some new" and "new \<noteq> []"
    and "BRICKS self key = Some bdf" and "CONSTANTS self key = Some (cs, mp)"
    and "block (city_model self) key = Some b" and "site_area b \<noteq> 0"
    and "services_loop (SCENARIO self) key lu bdf cs (default_weight_of (SCENARIO self) new) new
           = Inr (comps, cons')"
    and "vs = block_variables (MAX_FACILITIES self) key bdf"
    and "cons = cons' @ density_constraints key lu bdf (site_area b)"
  using assms
  by (auto simp: block_section_def split: option.splits if_splits sum.splits prod.splits)

lemma generate_Inr:
  assumes "generate_lp_problem self = Inr prob"
  shows "\<exists>vs comps cons. blocks_loop self (BLOCKS_LANUSE_DICT self) = Inr (vs, comps, cons)
          \<and> variables prob = vs \<and> constraints prob = cons \<and> objective prob = lpSum comps"
  using assms by (auto simp: generate_lp_problem_def split: sum.splits prod.splits)

lemma is_integer_iff: "is_integer x \<longleftrightarrow> x \<in> \<int>"
  by (auto simp: is_integer_def Ints_def)

section \<open>Density and counts of a solved allocation\<close>

text \<open>
  C5. For every feasible assignment of the generated program, hence for every solved
  (optimal) allocation, and for every block of the land-use assignment: the built area
  is at most the site area, the built floor-area ratio lies between \<open>FSI_min\<close> and \<open>FSI_max\<close>
  of the target land use, whatever the counts are, and the count of every brick row is a
  non-negative integer, at most the facility cap when one is configured; the variable is
  declared with that cap as its upper bound and with none when no cap is configured.
\<close>

theorem solved_allocation_density:
  assumes gen: "generate_lp_problem self = Inr prob"
    and feas: "feasible prob a"
    and key: "(key, lu) \<in> set (BLOCKS_LANUSE_DICT self)"
  shows "\<exists>b bricks_df. block (city_model self) key = Some b \<and> BRICKS self key = Some bricks_df
           \<and> built_area a key bricks_df \<le> site_area b
           \<and> FSI_min (LAND_USE_INDICATORS lu) \<le> built_area a key bricks_df / site_area b
           \<and> built_area a key bricks_df / site_area b \<le> FSI_max (LAND_USE_INDICATORS lu)
           \<and> (\<forall>n < length bricks_df.
                 \<lparr>var_name = BrickVar key n, lowBound = Some 0,
                  upBound = map_option of_int (MAX_FACILITIES self), cat = LpInteger\<rparr> \<in> set (variables prob)
                 \<and> a (BrickVar key n) \<in> \<int> \<and> 0 \<le> a (BrickVar key n)
                 \<and> (\<forall>m. MAX_FACILITIES self = Some m \<longrightarrow> a (BrickVar key n) \<le> of_int m))"
proof -
  from generate_Inr [OF gen] obtain vs comps cons where
    loop: "blocks_loop self (BLOCKS_LANUSE_DICT self) = Inr (vs, comps, cons)"
    and pv: "variables prob = vs" and pc: "constraints prob = cons" by blast
  from blocks_loop_Inr [OF loop key] obtain vs' comps' cons' where
    sec: "block_section self key lu = Inr (vs', comps', cons')"
    and sub: "set vs' \<subseteq> set vs" "set cons' \<subseteq> set cons" by blast
  from sec obtain bdf b cons'' where
    bdf: "BRICKS self key = Some bdf" and b: "block (city_model self) key = Some b"
    and vs': "vs' = block_variables (MAX_FACILITIES self) key bdf"
    and cons': "cons' = cons'' @ density_constraints key lu bdf (site_area b)"
    by (rule block_section_Inr)
  have ok: "constraint_ok a c" if "c \<in> set (density_constraints key lu bdf (site_area b))" for c
  proof -
    from that cons' sub(2) pc have "c \<in> set (constraints prob)" by auto
    with feas show ?thesis by (simp add: feasible_def list_all_iff)
  qed
  have vok: "var_ok a v" if "v \<in> set (block_variables (MAX_FACILITIES self) key bdf)" for v
  proof -
    from that vs' sub(1) pv have "v \<in> set (variables prob)" by auto
    with feas show ?thesis by (simp add: feasible_def list_all_iff)
  qed
  have "constraint_ok a \<lparr>lhs = area_expression key bdf, sense = LpConstraintLE, rhs = site_area b\<rparr>"
    by (rule ok) (simp add: density_constraints_def Let_def)
  then have area: "built_area a key bdf \<le> site_area b"
    by (simp add: constraint_ok_def lp_value_area_expression)
  have "constraint_ok a \<lparr>lhs = fsi_expression key bdf (site_area b), sense = LpConstraintGE,
                   rhs = FSI_min (LAND_USE_INDICATORS lu)\<rparr>"
    by (rule ok) (simp add: density_constraints_def Let_def)
  then have lo: "FSI_min (LAND_USE_INDICATORS lu) \<le> built_area a key bdf / site_area b"
    by (simp add: constraint_ok_def lp_value_fsi_expression)
  have "constraint_ok a \<lparr>lhs = fsi_expression key bdf (site_area b), sense = LpConstraintLE,
                   rhs = FSI_max (LAND_USE_INDICATORS lu)\<rparr>"
    by (rule ok) (simp add: density_constraints_def Let_def)
  then have hi: "built_area a key bdf / site_area b \<le> FSI_max (LAND_USE_INDICATORS lu)"
    by (simp add: constraint_ok_def lp_value_fsi_expression)
  have counts: "\<forall>n < length bdf. \<lparr>var_name = BrickVar key n, lowBound = Some 0,
                  upBound = map_option of_int (MAX_FACILITIES self), cat = LpInteger\<rparr> \<in> set (variables prob)
                 \<and> a (BrickVar key n) \<in> \<int> \<and> 0 \<le> a (BrickVar key n)
                 \<and> (\<forall>m. MAX_FACILITIES self = Some m \<longrightarrow> a (BrickVar key n) \<le> of_int m)"
  proof (intro allI impI)
    fix n assume n: "n < length bdf"
    let ?v = "\<lparr>var_name = BrickVar key n, lowBound = Some 0,
                upBound = map_option of_int (MAX_FACILITIES self), cat = LpInteger\<rparr>"
    have mem: "?v \<in> set (block_variables (MAX_FACILITIES self) key bdf)"
      using n by (simp add: block_variables_def)
    from vok [OF mem] have v: "var_ok a ?v" .
    have 1: "a (BrickVar key n) \<in> \<int>" using v by (simp add: var_ok_def is_integer_iff)
    have 2: "0 \<le> a (BrickVar key n)" using v by (simp add: var_ok_def)
    have 3: "\<forall>m. MAX_FACILITIES self = Some m \<longrightarrow> a (BrickVar key n) \<le> of_int m"
      using v by (auto simp: var_ok_def)
    have 4: "?v \<in> set (variables prob)" using mem sub(1) vs' pv by auto
    from 1 2 3 4 show "?v \<in> set (variables prob)
                 \<and> a (BrickVar key n) \<in> \<int> \<and> 0 \<le> a (BrickVar key n)
                 \<and> (\<forall>m. MAX_FACILITIES self = Some m \<longrightarrow> a (BrickVar key n) \<le> of_int m)"
      by (intro conjI)
  qed
  show ?thesis
    by (intro exI [of _ b] exI [of _ bdf] conjI b bdf area lo hi counts)
qed

lemmas builder_defs =
  generate_lp_problem_def block_section_def service_section_def service_components_def
  service_constraints_def deficit_constraint_def surplus_constraint_def density_constraints_def
  default_weight_of_def scenario_coef_sum_def service_weight_def service_bricks_idxs_def
  fit_function_def demand_from_new_population_def fsi_expression_def area_expression_def
  block_variables_def lpSum_def lp_add_def lp_sub_def lp_mul_def lp_div_def lp_var_def lp_zero_def
  lp_add_const_def

lemma upt_2: "[0..<2] = [0, 1]"
  by (simp add: upt_rec)

lemma generate_A: "generate_lp_problem self_A = Inr prob_A"
  by (simp add: builder_defs self_A_def city_A_def prob_A_def school_def polyclinic_def cafe_def
      upt_2 Let_def)

lemma feasible_A: "feasible prob_A vals_A"
  by (simp add: feasible_def prob_A_def vals_A_def var_ok_def constraint_ok_def lp_value_def is_integer_def)

lemma key_A: "(7, RESIDENTIAL) \<in> set (BLOCKS_LANUSE_DICT self_A)"
  by (simp add: self_A_def)

text \<open>C5 at block 7 of city A, with two school bricks on its 1000 square metres.\<close>

theorem solved_allocation_density_witness:
  "generate_lp_problem self_A = Inr prob_A \<and> feasible prob_A vals_A
   \<and> (7, RESIDENTIAL) \<in> set (BLOCKS_LANUSE_DICT self_A)
   \<and> (\<exists>b bricks_df. block (city_model self_A) 7 = Some b \<and> BRICKS self_A 7 = Some bricks_df
           \<and> built_area vals_A 7 bricks_df \<le> site_area b
           \<and> FSI_min (LAND_USE_INDICATORS RESIDENTIAL) \<le> built_area vals_A 7 bricks_df / site_area b
           \<and> built_area vals_A 7 bricks_df / site_area b \<le> FSI_max (LAND_USE_INDICATORS RESIDENTIAL)
           \<and> (\<forall>n < length bricks_df.
                 \<lparr>var_name = BrickVar 7 n, lowBound = Some 0,
                  upBound = map_option of_int (MAX_FACILITIES self_A), cat = LpInteger\<rparr> \<in> set (variables prob_A)
                 \<and> vals_A (BrickVar 7 n) \<in> \<int> \<and> 0 \<le> vals_A (BrickVar 7 n)
                 \<and> (\<forall>m. MAX_FACILITIES self_A = Some m \<longrightarrow> vals_A (BrickVar 7 n) \<le> of_int m)))"
  using generate_A feasible_A key_A solved_allocation_density [OF generate_A feasible_A key_A]
  by (intro conjI)

section \<open>Constraints of a service type\<close>



section \<open>The objective\<close>

lemma service_components_value:
  "(\<Sum>c\<leftarrow>service_components key bdf lc w serv. lp_value a c) =
     (if in_deficit lc
      then w * ((built_capacity a key bdf serv + capacity_local lc)
                - (demand_local lc + added_demand a key serv))
      else 0)"
  by (simp add: service_components_def in_deficit_def Let_def lp_value_fit_function
      lp_value_demand_from_new_population algebra_simps)

lemma services_loop_value:
  assumes "services_loop sc key lu bdf cs dw new = Inr (comps, cons)"
  shows "(\<Sum>c\<leftarrow>comps. lp_value a c) =
     (\<Sum>serv\<leftarrow>new. (case cs (name serv) of
                       None \<Rightarrow> 0
                     | Some lc \<Rightarrow> (if in_deficit lc
                                   then service_weight sc dw serv
                                        * ((built_capacity a key bdf serv + capacity_local lc)
                                           - (demand_local lc + added_demand a key serv))
                                   else 0)))"
  using assms
proof (induction new arbitrary: comps cons)
  case Nil
  then show ?case by simp
next
  case (Cons s rest)
  from Cons.prems obtain c1 k1 c2 k2 where
    sec: "service_section sc key lu bdf cs dw s = Inr (c1, k1)"
    and rest: "services_loop sc key lu bdf cs dw rest = Inr (c2, k2)"
    and eq: "comps = c1 @ c2"
    by (auto split: sum.splits prod.splits)
  from sec obtain lc where lc: "cs (name s) = Some lc"
    and c1: "c1 = service_components key bdf lc (service_weight sc dw s) s"
    by (auto simp: service_section_def split: if_splits option.splits)
  show ?case
    by (simp add: eq Cons.IH [OF rest] lc c1 service_components_value)
qed

lemma block_section_value:
  assumes "block_section self key lu = Inr (vs, comps, cons)"
  shows "(\<Sum>c\<leftarrow>comps. lp_value a c) = block_pairs_sum in_deficit self a key"
proof -
  from assms obtain new bdf cs mp cons' where
    "NEW_SERVICE_TYPES self key = Some new" "BRICKS self key = Some bdf"
    "CONSTANTS self key = Some (cs, mp)"
    and sl: "services_loop (SCENARIO self) key lu bdf cs (default_weight_of (SCENARIO self) new) new
           = Inr (comps, cons')"
    by (rule block_section_Inr)
  then show ?thesis
    unfolding block_pairs_sum_def weighted_surplus_def
    by (simp add: services_loop_value [OF sl])
qed

lemma blocks_loop_value:
  assumes "blocks_loop self bl = Inr (vs, comps, cons)"
  shows "(\<Sum>c\<leftarrow>comps. lp_value a c) = (\<Sum>(key, lu)\<leftarrow>bl. block_pairs_sum in_deficit self a key)"
  using assms
proof (induction bl arbitrary: vs comps cons)
  case Nil
  then show ?case by simp
next
  case (Cons p rest)
  obtain k l where p: "p = (k, l)" by (cases p)
  from Cons.prems p obtain v1 c1 k1 v2 c2 k2 where
    sec: "block_section self k l = Inr (v1, c1, k1)"
    and rest: "blocks_loop self rest = Inr (v2, c2, k2)"
    and eq: "comps = c1 @ c2"
    by (auto split: sum.splits prod.splits)
  show ?case
    by (simp add: eq p Cons.IH [OF rest] block_section_value [OF sec])
qed

text \<open>
  C2, amended. The objective of the generated program is the sum of \<open>weight \<times> (C - D)\<close>
  over the blocks of the land-use assignment and those candidate service types of each
  block that are in deficit, \<open>demand_local > 0\<close> and \<open>capacity_local < demand_local\<close>; the
  other pairs contribute nothing.
\<close>

theorem objective_is_deficit_sum:
  assumes "generate_lp_problem self = Inr prob"
  shows "lp_value a (objective prob) = pairs_sum in_deficit self a"
proof -
  from generate_Inr [OF assms] obtain vs comps cons where
    loop: "blocks_loop self (BLOCKS_LANUSE_DICT self) = Inr (vs, comps, cons)"
    and obj: "objective prob = lpSum comps" by blast
  show ?thesis
    by (simp add: obj pairs_sum_def blocks_loop_value [OF loop])
qed

lemma generate_B: "generate_lp_problem self_B = Inr prob_B"
  by (simp add: builder_defs self_B_def city_B_def prob_B_def school_def Let_def)

text \<open>
  C2, as stated: the objective is the sum of \<open>weight \<times> (C - D)\<close> over all pairs of a block
  and a candidate service type. In city B the school of block 7 is not in deficit; the
  objective is 0, and with five bricks the sum over all pairs is 250.
\<close>

theorem objective_all_pairs_counterexample:
  "objective_value self_B vals_B = Some 0 \<and> pairs_sum any_pair self_B vals_B = 250
   \<and> objective_value self_B vals_B \<noteq> Some (pairs_sum any_pair self_B vals_B)"
proof -
  have 1: "objective_value self_B vals_B = Some 0"
    by (simp add: objective_value_def generate_B prob_B_def lp_value_def)
  have 2: "pairs_sum any_pair self_B vals_B = 250"
    by (simp add: pairs_sum_def block_pairs_sum_def self_B_def weighted_surplus_def service_weight_def
        default_weight_of_def scenario_coef_sum_def built_capacity_def service_bricks_idxs_def
        added_demand_def vals_B_def school_def any_pair_def)
  from 1 2 show ?thesis by simp
qed

text \<open>C2, amended, at city A: schools and polyclinics are in deficit, cafes are not.\<close>

theorem objective_is_deficit_sum_witness:
  "generate_lp_problem self_A = Inr prob_A
   \<and> lp_value vals_A (objective prob_A) = pairs_sum in_deficit self_A vals_A
   \<and> pairs_sum in_deficit self_A vals_A = - 11"
proof -
  have "lp_value vals_A (objective prob_A) = - 11"
    by (simp add: prob_A_def lp_value_def vals_A_def)
  with objective_is_deficit_sum [OF generate_A, of vals_A] generate_A show ?thesis by simp
qed

section \<open>The population variable\<close>

lemma lp_vars_zero [simp]: "lp_vars lp_zero = {}"
  by (simp add: lp_vars_def lp_zero_def)

lemma lp_vars_var [simp]: "lp_vars (lp_var v) = {v}"
  by (simp add: lp_vars_def lp_var_def)

lemma fst_image_snd: "fst ` (\<lambda>(v, x). (v, f x)) ` S = fst ` S"
  by (simp add: image_image case_prod_unfold)


lemma lp_vars_div [simp]: "lp_vars (lp_div e c) = lp_vars e"
  by (simp add: lp_vars_def lp_div_def fst_image_snd)

lemma lp_vars_add [simp]: "lp_vars (lp_add e1 e2) = lp_vars e1 \<union> lp_vars e2"
  by (auto simp: lp_vars_def lp_add_def)

lemma lp_vars_foldl: "lp_vars (foldl lp_add e es) = lp_vars e \<union> (\<Union>x \<in> set es. lp_vars x)"
  by (induction es arbitrary: e) auto

lemma lp_vars_lpSum: "lp_vars (lpSum es) = (\<Union>x \<in> set es. lp_vars x)"
  by (simp add: lpSum_def lp_vars_foldl)
















section \<open>The estimator\<close>

lemma map_of_zero_population:
  "map_of (zero_population sel gdf) b
     = map_option (\<lambda>r. if b = sel then r\<lparr>gdf_population := 0\<rparr> else r) (map_of gdf b)"
  by (induction gdf) (auto simp: zero_population_def)

lemma loc_rows_Inr:
  "loc_rows gdf ids = Inr rows \<Longrightarrow>
     rows = map (\<lambda>i. the (map_of gdf i)) ids \<and> (\<forall>i \<in> set ids. map_of gdf i \<noteq> None)"
  by (induction ids arbitrary: rows) (auto split: option.splits sum.splits)

lemma sum_list_zero_population:
  "(\<Sum>(i, r)\<leftarrow>zero_population sel gdf. f (gdf_population r))
     = (\<Sum>(i, r)\<leftarrow>gdf. f (if i = sel then 0 else gdf_population r))"
  by (induction gdf) (auto simp: zero_population_def)

lemma sum_list_capacity_zero_population:
  "(\<Sum>(i, r)\<leftarrow>zero_population sel gdf. gdf_capacity r n) = (\<Sum>(i, r)\<leftarrow>gdf. gdf_capacity r n)"
  by (induction gdf) (auto simp: zero_population_def)

text \<open>The margin that a pass of the estimator computes.\<close>

lemma estimate_service_margin:
  assumes "estimate_service ext (zero_population sel (get_blocks_gdf cm)) selrow acc serv = Inr (lc, m)"
    and "map_of (get_blocks_gdf cm) sel = Some selrow"
  shows "m = global_margin ext cm sel serv"
  using assms
  by (auto simp: estimate_service_def global_margin_def block_capacity_def Let_def
      sum_list_zero_population sum_list_capacity_zero_population split: sum.splits)

lemma distinct_catchment_idxs:
  "distinct (map acc_id acc) \<Longrightarrow> distinct (catchment_idxs acc serv)"
  by (simp add: catchment_idxs_def distinct_map_filter)

lemma set_catchment_idxs:
  "set (catchment_idxs (Accessibility_calculate ext sel) serv) = catchment ext sel serv"
  by (auto simp: catchment_idxs_def catchment_def)

text \<open>The constants that a pass of the estimator computes.\<close>

lemma estimate_service_local:
  assumes est: "estimate_service ext (zero_population sel (get_blocks_gdf cm)) selrow
                  (Accessibility_calculate ext sel) serv = Inr (lc, m)"
    and sel: "map_of (get_blocks_gdf cm) sel = Some selrow"
    and dist: "distinct (map acc_id (Accessibility_calculate ext sel))"
  shows "demand_local lc = (\<Sum>b \<in> catchment ext sel serv.
            calculate_in_need ext serv (if b = sel then 0 else block_population cm b))"
    and "capacity_local lc = (\<Sum>b \<in> catchment ext sel serv. block_capacity cm b (name serv))
            - block_capacity cm sel (name serv)"
proof -
  let ?z = "zero_population sel (get_blocks_gdf cm)"
  let ?ids = "catchment_idxs (Accessibility_calculate ext sel) serv"
  from est obtain rows where rows: "loc_rows ?z ?ids = Inr rows"
    and dl: "demand_local lc = (\<Sum>r\<leftarrow>rows. calculate_in_need ext serv (gdf_population r))"
    and cl: "capacity_local lc = (\<Sum>r\<leftarrow>rows. gdf_capacity r (name serv)) - gdf_capacity selrow (name serv)"
    by (auto simp: estimate_service_def Let_def split: sum.splits)
  from loc_rows_Inr [OF rows] have r: "rows = map (\<lambda>i. the (map_of ?z i)) ?ids"
    and found: "\<forall>i \<in> set ?ids. map_of ?z i \<noteq> None" by simp_all
  have d: "distinct ?ids" using dist by (rule distinct_catchment_idxs)
  have pop: "gdf_population (the (map_of ?z i)) = (if i = sel then 0 else block_population cm i)"
    if "i \<in> set ?ids" for i
    using found that by (auto simp: map_of_zero_population block_population_def split: option.splits)
  have cap: "gdf_capacity (the (map_of ?z i)) n = block_capacity cm i n"
    if "i \<in> set ?ids" for i n
    using found that by (auto simp: map_of_zero_population block_capacity_def split: option.splits)
  have "demand_local lc = (\<Sum>i\<leftarrow>?ids. calculate_in_need ext serv (gdf_population (the (map_of ?z i))))"
    by (simp add: dl r comp_def)
  also have "\<dots> = (\<Sum>i\<leftarrow>?ids. calculate_in_need ext serv (if i = sel then 0 else block_population cm i))"
    by (rule arg_cong [where f = sum_list], rule map_cong) (simp_all add: pop)
  also have "\<dots> = (\<Sum>i \<in> set ?ids. calculate_in_need ext serv (if i = sel then 0 else block_population cm i))"
    using d by (rule sum_list_distinct_conv_sum_set)
  finally show "demand_local lc = (\<Sum>b \<in> catchment ext sel serv.
            calculate_in_need ext serv (if b = sel then 0 else block_population cm b))"
    by (simp add: set_catchment_idxs)
  have "(\<Sum>r\<leftarrow>rows. gdf_capacity r (name serv)) = (\<Sum>i\<leftarrow>?ids. gdf_capacity (the (map_of ?z i)) (name serv))"
    by (simp add: r comp_def)
  also have "\<dots> = (\<Sum>i\<leftarrow>?ids. block_capacity cm i (name serv))"
    by (rule arg_cong [where f = sum_list], rule map_cong) (simp_all add: cap)
  also have "\<dots> = (\<Sum>i \<in> set ?ids. block_capacity cm i (name serv))"
    using d by (rule sum_list_distinct_conv_sum_set)
  finally have "(\<Sum>r\<leftarrow>rows. gdf_capacity r (name serv))
      = (\<Sum>b \<in> catchment ext sel serv. block_capacity cm b (name serv))"
    by (simp add: set_catchment_idxs)
  with cl sel show "capacity_local lc = (\<Sum>b \<in> catchment ext sel serv. block_capacity cm b (name serv))
            - block_capacity cm sel (name serv)"
    by (simp add: block_capacity_def)
qed

lemma estimator_loop_append:
  "estimator_loop ext gdf selrow acc st (xs @ ys)
     = (case estimator_loop ext gdf selrow acc st xs of
          Inl e \<Rightarrow> Inl e
        | Inr st1 \<Rightarrow> estimator_loop ext gdf selrow acc st1 ys)"
  by (induction xs arbitrary: st) (auto split: sum.splits prod.splits)

lemma estimator_loop_constants_other:
  "estimator_loop ext gdf selrow acc st servs = Inr st' \<Longrightarrow> n \<notin> name ` set servs \<Longrightarrow>
     constants st' n = constants st n"
  by (induction servs arbitrary: st) (auto split: sum.splits prod.splits)

lemma estimator_loop_constants:
  assumes "estimator_loop ext gdf selrow acc st servs = Inr st'"
    and "serv \<in> set servs" and "distinct (map name servs)"
  shows "\<exists>lc m. estimate_service ext gdf selrow acc serv = Inr (lc, m) \<and> constants st' (name serv) = Some lc"
  using assms
proof (induction servs arbitrary: st)
  case Nil
  then show ?case by simp
next
  case (Cons s rest)
  from Cons.prems(1) obtain lc m where
    est: "estimate_service ext gdf selrow acc s = Inr (lc, m)"
    and rest: "estimator_loop ext gdf selrow acc
            \<lparr>constants = (constants st)(name s \<mapsto> lc),
             min_found = (if below_min m (min_found st) then Some (m, s) else min_found st)\<rparr>
            rest = Inr st'"
    by (auto split: sum.splits prod.splits)
  show ?case
  proof (cases "serv \<in> set rest")
    case True
    with Cons.prems(3) Cons.IH [OF rest] show ?thesis by simp
  next
    case False
    with Cons.prems(2) have e: "serv = s" by simp
    from Cons.prems(3) have "name s \<notin> name ` set rest" by auto
    from estimator_loop_constants_other [OF rest this] est e show ?thesis by simp
  qed
qed

lemma estimator_loop_min:
  assumes mg: "\<And>s lc m. estimate_service ext gdf selrow acc s = Inr (lc, m) \<Longrightarrow> m = mg s"
    and loop: "estimator_loop ext gdf selrow acc \<lparr>constants = c0, min_found = None\<rparr> servs = Inr st'"
  shows "if servs = [] then min_found st' = None
         else (\<exists>i < length servs. min_found st' = Some (mg (servs ! i), servs ! i)
                 \<and> (\<forall>j < length servs. mg (servs ! i) \<le> mg (servs ! j))
                 \<and> (\<forall>j < i. mg (servs ! i) < mg (servs ! j)))"
  using loop
proof (induction servs arbitrary: st' rule: rev_induct)
  case Nil
  then show ?case by auto
next
  case (snoc x xs)
  from snoc.prems obtain st1 where
    l1: "estimator_loop ext gdf selrow acc \<lparr>constants = c0, min_found = None\<rparr> xs = Inr st1"
    and l2: "estimator_loop ext gdf selrow acc st1 [x] = Inr st'"
    by (auto simp: estimator_loop_append split: sum.splits)
  from l2 obtain lc m where est: "estimate_service ext gdf selrow acc x = Inr (lc, m)"
    and mf: "min_found st' = (if below_min m (min_found st1) then Some (m, x) else min_found st1)"
    by (auto split: sum.splits prod.splits)
  from mg [OF est] have m: "m = mg x" .
  note IH = snoc.IH [OF l1]
  have ne: "xs @ [x] \<noteq> []" by simp
  show ?case
  proof (cases "xs = []")
    case True
    with IH mf m show ?thesis by (simp add: below_min_def)
  next
    case False
    with IH obtain i where i: "i < length xs"
      and s1: "min_found st1 = Some (mg (xs ! i), xs ! i)"
      and le: "\<forall>j < length xs. mg (xs ! i) \<le> mg (xs ! j)"
      and lt: "\<forall>j < i. mg (xs ! i) < mg (xs ! j)" by auto
    show ?thesis
    proof (cases "mg x < mg (xs ! i)")
      case True
      with mf m s1 have r: "min_found st' = Some (mg x, x)" by (simp add: below_min_def)
      have b: "\<forall>j < length xs. mg x < mg ((xs @ [x]) ! j)"
      proof (intro allI impI)
        fix j assume j: "j < length xs"
        with le have "mg (xs ! i) \<le> mg (xs ! j)" by simp
        with True j show "mg x < mg ((xs @ [x]) ! j)" by (simp add: nth_append)
      qed
      have a: "\<forall>j < length (xs @ [x]). mg x \<le> mg ((xs @ [x]) ! j)"
      proof (intro allI impI)
        fix j assume j: "j < length (xs @ [x])"
        show "mg x \<le> mg ((xs @ [x]) ! j)"
        proof (cases "j < length xs")
          case True
          with b show ?thesis by (simp add: less_imp_le)
        next
          case False
          with j have "j = length xs" by simp
          then show ?thesis by simp
        qed
      qed
      have "length xs < length (xs @ [x])
            \<and> min_found st' = Some (mg ((xs @ [x]) ! length xs), (xs @ [x]) ! length xs)
            \<and> (\<forall>j < length (xs @ [x]). mg ((xs @ [x]) ! length xs) \<le> mg ((xs @ [x]) ! j))
            \<and> (\<forall>j < length xs. mg ((xs @ [x]) ! length xs) < mg ((xs @ [x]) ! j))"
        using r a b by simp
      then have "\<exists>i < length (xs @ [x]). min_found st' = Some (mg ((xs @ [x]) ! i), (xs @ [x]) ! i)
                 \<and> (\<forall>j < length (xs @ [x]). mg ((xs @ [x]) ! i) \<le> mg ((xs @ [x]) ! j))
                 \<and> (\<forall>j < i. mg ((xs @ [x]) ! i) < mg ((xs @ [x]) ! j))"
        by (intro exI [of _ "length xs"])
      then show ?thesis unfolding if_not_P [OF ne] .
    next
      case False
      with mf m s1 have r: "min_found st' = Some (mg (xs ! i), xs ! i)" by (simp add: below_min_def)
      have a: "\<forall>j < length (xs @ [x]). mg (xs ! i) \<le> mg ((xs @ [x]) ! j)"
      proof (intro allI impI)
        fix j assume j: "j < length (xs @ [x])"
        show "mg (xs ! i) \<le> mg ((xs @ [x]) ! j)"
        proof (cases "j < length xs")
          case True
          with le show ?thesis by (simp add: nth_append)
        next
          case F: False
          with j have "j = length xs" by simp
          with False show ?thesis by simp
        qed
      qed
      have b: "\<forall>j < i. mg (xs ! i) < mg ((xs @ [x]) ! j)"
        using lt i by (auto simp: nth_append)
      from i have e: "(xs @ [x]) ! i = xs ! i" by (simp add: nth_append)
      from i r a b e have "i < length (xs @ [x])
            \<and> min_found st' = Some (mg ((xs @ [x]) ! i), (xs @ [x]) ! i)
            \<and> (\<forall>j < length (xs @ [x]). mg ((xs @ [x]) ! i) \<le> mg ((xs @ [x]) ! j))
            \<and> (\<forall>j < i. mg ((xs @ [x]) ! i) < mg ((xs @ [x]) ! j))"
        by simp
      then have "\<exists>i < length (xs @ [x]). min_found st' = Some (mg ((xs @ [x]) ! i), (xs @ [x]) ! i)
                 \<and> (\<forall>j < length (xs @ [x]). mg ((xs @ [x]) ! i) \<le> mg ((xs @ [x]) ! j))
                 \<and> (\<forall>j < i. mg ((xs @ [x]) ! i) < mg ((xs @ [x]) ! j))"
        by (intro exI [of _ i])
      then show ?thesis unfolding if_not_P [OF ne] .
    qed
  qed
qed

text \<open>When the estimator returns.\<close>

lemma loc_rows_total:
  "\<forall>i \<in> set ids. map_of gdf i \<noteq> None \<Longrightarrow> \<exists>rows. loc_rows gdf ids = Inr rows"
  by (induction ids) auto

lemma fst_zero_population: "fst ` set (zero_population sel gdf) = fst ` set gdf"
  by (force simp: zero_population_def)

lemma estimate_service_total:
  assumes "catchment ext sel serv \<subseteq> fst ` set gdf"
  shows "\<exists>lc m. estimate_service ext (zero_population sel gdf) selrow (Accessibility_calculate ext sel) serv
           = Inr (lc, m)"
proof -
  have "\<forall>i \<in> set (catchment_idxs (Accessibility_calculate ext sel) serv).
          map_of (zero_population sel gdf) i \<noteq> None"
    using assms by (auto simp: set_catchment_idxs map_of_eq_None_iff fst_zero_population)
  from loc_rows_total [OF this] show ?thesis
    by (auto simp: estimate_service_def Let_def)
qed

lemma estimator_loop_total:
  assumes "\<forall>s \<in> set servs. \<exists>lc m. estimate_service ext gdf selrow acc s = Inr (lc, m)"
  shows "\<exists>st'. estimator_loop ext gdf selrow acc st servs = Inr st'
           \<and> (case min_found st' of
                 None \<Rightarrow> servs = [] \<and> min_found st = None
               | Some (m, s) \<Rightarrow> s \<in> set servs \<or> min_found st = Some (m, s))"
  using assms
proof (induction servs arbitrary: st)
  case Nil
  then show ?case by (auto split: option.splits)
next
  case (Cons x rest)
  from Cons.prems obtain lc m where est: "estimate_service ext gdf selrow acc x = Inr (lc, m)"
    by auto
  let ?st1 = "\<lparr>constants = (constants st)(name x \<mapsto> lc),
             min_found = (if below_min m (min_found st) then Some (m, x) else min_found st)\<rparr>"
  from Cons.prems have "\<forall>s \<in> set rest. \<exists>lc m. estimate_service ext gdf selrow acc s = Inr (lc, m)"
    by simp
  from Cons.IH [OF this, of ?st1] obtain st' where
    l: "estimator_loop ext gdf selrow acc ?st1 rest = Inr st'"
    and c: "case min_found st' of
                 None \<Rightarrow> rest = [] \<and> min_found ?st1 = None
               | Some (m', s) \<Rightarrow> s \<in> set rest \<or> min_found ?st1 = Some (m', s)" by blast
  from est l have r: "estimator_loop ext gdf selrow acc st (x # rest) = Inr st'" by simp
  from c have "case min_found st' of
                 None \<Rightarrow> x # rest = [] \<and> min_found st = None
               | Some (m', s) \<Rightarrow> s \<in> set (x # rest) \<or> min_found st = Some (m', s)"
    by (auto simp: below_min_def split: option.splits if_splits)
  with r show ?case by blast
qed

lemma get_capacity_demand_returns:
  assumes sel: "map_of (get_blocks_gdf (city_model self)) sel \<noteq> None"
    and b: "block (city_model self) sel \<noteq> None"
    and new: "NEW_SERVICE_TYPES self sel = Some new" and orig: "ORIG_SERVICE_TYPES self sel = Some orig"
    and ne: "service_union ext new orig \<noteq> []"
    and cat: "\<forall>s \<in> set (service_union ext new orig).
               catchment ext sel s \<subseteq> fst ` set (get_blocks_gdf (city_model self))"
    and rate: "\<forall>s \<in> set (service_union ext new orig). demand s \<noteq> 0"
  shows "\<exists>cs min_population. get_capacity_demand ext self sel = Inr (cs, min_population)"
proof -
  from sel obtain selrow where s: "map_of (get_blocks_gdf (city_model self)) sel = Some selrow" by auto
  from b obtain blk where blk: "block (city_model self) sel = Some blk" by auto
  let ?gdf = "zero_population sel (get_blocks_gdf (city_model self))"
  have "\<forall>s \<in> set (service_union ext new orig).
          \<exists>lc m. estimate_service ext ?gdf selrow (Accessibility_calculate ext sel) s = Inr (lc, m)"
    using cat estimate_service_total by blast
  from estimator_loop_total [OF this, of "\<lparr>constants = Map.empty, min_found = None\<rparr>"]
  obtain st' where l: "estimator_loop ext ?gdf selrow (Accessibility_calculate ext sel)
        \<lparr>constants = Map.empty, min_found = None\<rparr> (service_union ext new orig) = Inr st'"
    and c: "case min_found st' of
                 None \<Rightarrow> service_union ext new orig = []
                         \<and> min_found \<lparr>constants = Map.empty, min_found = None\<rparr> = None
               | Some (m, s) \<Rightarrow> s \<in> set (service_union ext new orig)
                         \<or> min_found \<lparr>constants = Map.empty, min_found = None\<rparr> = Some (m, s)"
    by blast
  from c ne obtain m sv where mf: "min_found st' = Some (m, sv)" and "sv \<in> set (service_union ext new orig)"
    by (auto split: option.splits)
  with rate have "demand sv \<noteq> 0" by simp
  with mf have "population_ceiling (min_found st') = Inr (max (m / demand sv * 1000) 0)"
    by (simp add: population_ceiling_def)
  with s blk new orig l show ?thesis
    by (simp add: get_capacity_demand_def Let_def)
qed

lemma get_capacity_demand_Inr:
  assumes "get_capacity_demand ext self sel = Inr (cs, min_population)"
  obtains selrow new orig st where
    "map_of (get_blocks_gdf (city_model self)) sel = Some selrow"
    and "NEW_SERVICE_TYPES self sel = Some new" and "ORIG_SERVICE_TYPES self sel = Some orig"
    and "estimator_loop ext (zero_population sel (get_blocks_gdf (city_model self))) selrow
           (Accessibility_calculate ext sel) \<lparr>constants = Map.empty, min_found = None\<rparr>
           (service_union ext new orig) = Inr st"
    and "population_ceiling (min_found st) = Inr min_population" and "cs = constants st"
  using assms
  by (auto simp: get_capacity_demand_def Let_def split: option.splits sum.splits)

text \<open>
  C3. When the table of accessibility has one row per block and no two service types of
  the union of the original and the candidate service types of the selected block share
  a name, the estimator gives every service type of the union these constants: the local
  demand is the sum of its demand function over the populations of the blocks of its
  catchment, the population of the selected block read as zero, and the local capacity
  is the capacity of the catchment for it minus the current capacity of the selected
  block.
\<close>

theorem local_constants_of_catchment:
  assumes run: "get_capacity_demand ext self sel = Inr (cs, min_population)"
    and new: "NEW_SERVICE_TYPES self sel = Some new" and orig: "ORIG_SERVICE_TYPES self sel = Some orig"
    and ord: "is_set_order ext (remdups (new @ orig))"
    and names: "inj_on name (set new \<union> set orig)"
    and keyed: "distinct (map acc_id (Accessibility_calculate ext sel))"
    and serv: "serv \<in> set new \<union> set orig"
  shows "cs (name serv) =
           Some \<lparr>demand_local =
                   (\<Sum>b \<in> catchment ext sel serv.
                      calculate_in_need ext serv (if b = sel then 0 else block_population (city_model self) b)),
                 capacity_local =
                   (\<Sum>b \<in> catchment ext sel serv. block_capacity (city_model self) b (name serv))
                   - block_capacity (city_model self) sel (name serv)\<rparr>"
proof -
  from run obtain selrow new' orig' st where
    sel: "map_of (get_blocks_gdf (city_model self)) sel = Some selrow"
    and n': "NEW_SERVICE_TYPES self sel = Some new'" and o': "ORIG_SERVICE_TYPES self sel = Some orig'"
    and loop': "estimator_loop ext (zero_population sel (get_blocks_gdf (city_model self))) selrow
           (Accessibility_calculate ext sel) \<lparr>constants = Map.empty, min_found = None\<rparr>
           (service_union ext new' orig') = Inr st"
    and cs: "cs = constants st"
    by (rule get_capacity_demand_Inr)
  from new orig n' o' loop' have loop: "estimator_loop ext (zero_population sel (get_blocks_gdf (city_model self))) selrow
           (Accessibility_calculate ext sel) \<lparr>constants = Map.empty, min_found = None\<rparr>
           (service_union ext new orig) = Inr st" by simp
  from ord have s: "set (service_union ext new orig) = set new \<union> set orig"
    and d: "distinct (service_union ext new orig)"
    by (simp_all add: is_set_order_def service_union_def)
  from names s d have dn: "distinct (map name (service_union ext new orig))"
    by (simp add: distinct_map)
  from serv s have "serv \<in> set (service_union ext new orig)" by simp
  from estimator_loop_constants [OF loop this dn] obtain lc m where
    est: "estimate_service ext (zero_population sel (get_blocks_gdf (city_model self))) selrow
            (Accessibility_calculate ext sel) serv = Inr (lc, m)"
    and c: "constants st (name serv) = Some lc" by blast
  from estimate_service_local [OF est sel keyed] have
    "lc = \<lparr>demand_local =
                   (\<Sum>b \<in> catchment ext sel serv.
                      calculate_in_need ext serv (if b = sel then 0 else block_population (city_model self) b)),
                 capacity_local =
                   (\<Sum>b \<in> catchment ext sel serv. block_capacity (city_model self) b (name serv))
                   - block_capacity (city_model self) sel (name serv)\<rparr>"
    by (cases lc) simp
  with c cs show ?thesis by simp
qed

text \<open>
  C4, amended. The population ceiling that the estimator returns is \<open>max (m / r * 1000) 0\<close>,
  where \<open>m\<close> is the least global margin over the service types of the union and \<open>r\<close> is
  the demand rate of the first service type that has this margin, in the order in which
  the set of the union is iterated. That order is the one of a Python set: some order
  without repetitions, which the inputs do not fix.
\<close>

theorem population_ceiling_first_minimum:
  assumes run: "get_capacity_demand ext self sel = Inr (cs, min_population)"
    and new: "NEW_SERVICE_TYPES self sel = Some new" and orig: "ORIG_SERVICE_TYPES self sel = Some orig"
    and ord: "is_set_order ext (remdups (new @ orig))"
  shows "\<exists>i < length (service_union ext new orig).
           (\<forall>t \<in> set new \<union> set orig.
              global_margin ext (city_model self) sel (service_union ext new orig ! i)
                \<le> global_margin ext (city_model self) sel t)
         \<and> (\<forall>j < i. global_margin ext (city_model self) sel (service_union ext new orig ! i)
                      < global_margin ext (city_model self) sel (service_union ext new orig ! j))
         \<and> (demand (service_union ext new orig ! i) \<noteq> 0 \<longrightarrow>
               min_population =
                 max (global_margin ext (city_model self) sel (service_union ext new orig ! i)
                        / demand (service_union ext new orig ! i) * 1000) 0)"
proof -
  let ?servs = "service_union ext new orig"
  let ?mg = "global_margin ext (city_model self) sel"
  from run obtain selrow new' orig' st where
    sel: "map_of (get_blocks_gdf (city_model self)) sel = Some selrow"
    and n': "NEW_SERVICE_TYPES self sel = Some new'" and o': "ORIG_SERVICE_TYPES self sel = Some orig'"
    and loop': "estimator_loop ext (zero_population sel (get_blocks_gdf (city_model self))) selrow
           (Accessibility_calculate ext sel) \<lparr>constants = Map.empty, min_found = None\<rparr>
           (service_union ext new' orig') = Inr st"
    and pc: "population_ceiling (min_found st) = Inr min_population"
    by (rule get_capacity_demand_Inr)
  from new orig n' o' loop' have loop: "estimator_loop ext (zero_population sel (get_blocks_gdf (city_model self))) selrow
           (Accessibility_calculate ext sel) \<lparr>constants = Map.empty, min_found = None\<rparr>
           ?servs = Inr st" by simp
  have inv: "if ?servs = [] then min_found st = None
         else (\<exists>i < length ?servs. min_found st = Some (?mg (?servs ! i), ?servs ! i)
                 \<and> (\<forall>j < length ?servs. ?mg (?servs ! i) \<le> ?mg (?servs ! j))
                 \<and> (\<forall>j < i. ?mg (?servs ! i) < ?mg (?servs ! j)))"
  proof (rule estimator_loop_min [OF _ loop])
    fix s lc m
    assume "estimate_service ext (zero_population sel (get_blocks_gdf (city_model self))) selrow
            (Accessibility_calculate ext sel) s = Inr (lc, m)"
    then show "m = ?mg s" using sel by (rule estimate_service_margin)
  qed
  have ne: "?servs \<noteq> []"
  proof
    assume "?servs = []"
    with inv have "min_found st = None" by simp
    with pc show False by (simp add: population_ceiling_def)
  qed
  with inv obtain i where i: "i < length ?servs"
    and mf: "min_found st = Some (?mg (?servs ! i), ?servs ! i)"
    and le: "\<forall>j < length ?servs. ?mg (?servs ! i) \<le> ?mg (?servs ! j)"
    and lt: "\<forall>j < i. ?mg (?servs ! i) < ?mg (?servs ! j)" by auto
  from ord have s: "set ?servs = set new \<union> set orig"
    by (simp add: is_set_order_def service_union_def)
  have a: "\<forall>t \<in> set new \<union> set orig. ?mg (?servs ! i) \<le> ?mg t"
  proof
    fix t assume "t \<in> set new \<union> set orig"
    with s have "t \<in> set ?servs" by simp
    then obtain j where "j < length ?servs" "?servs ! j = t"
      unfolding in_set_conv_nth by blast
    with le show "?mg (?servs ! i) \<le> ?mg t" by auto
  qed
  have c: "demand (?servs ! i) \<noteq> 0 \<longrightarrow>
             min_population = max (?mg (?servs ! i) / demand (?servs ! i) * 1000) 0"
    using pc mf by (auto simp: population_ceiling_def)
  from i a lt c show ?thesis by blast
qed

text \<open>Block 7 of city A.\<close>

lemmas estimator_defs =
  get_capacity_demand_def zero_population_def service_union_def estimate_service_def
  catchment_idxs_def below_min_def population_ceiling_def

lemma run_A: "get_capacity_demand ext_ex self_A 7 = Inr (constants_A, 0)"
  by (simp add: estimator_defs self_A_def city_A_def ext_ex_def constants_A_def
      school_def polyclinic_def cafe_def)

lemma new_A: "NEW_SERVICE_TYPES self_A 7 = Some [school, polyclinic, cafe]"
  by (simp add: self_A_def)

lemma orig_A: "ORIG_SERVICE_TYPES self_A 7 = Some []"
  by (simp add: self_A_def)

lemma order_A: "is_set_order ext_ex (remdups ([school, polyclinic, cafe] @ []))"
  by (simp add: is_set_order_def ext_ex_def school_def polyclinic_def cafe_def)

lemma names_A: "inj_on name (set [school, polyclinic, cafe] \<union> set [])"
  by (simp add: school_def polyclinic_def cafe_def)

lemma keyed_A: "distinct (map acc_id (Accessibility_calculate ext_ex 7))"
  by (simp add: ext_ex_def)

lemma catchment_A: "catchment ext_ex 7 cafe = {7, 8}"
  by (simp add: set_catchment_idxs [symmetric] catchment_idxs_def ext_ex_def cafe_def)

text \<open>C3 at the cafes of block 7 of city A, whose catchment is the blocks 7 and 8.\<close>

theorem local_constants_of_catchment_witness:
  "get_capacity_demand ext_ex self_A 7 = Inr (constants_A, 0)
   \<and> NEW_SERVICE_TYPES self_A 7 = Some [school, polyclinic, cafe]
   \<and> ORIG_SERVICE_TYPES self_A 7 = Some []
   \<and> is_set_order ext_ex (remdups ([school, polyclinic, cafe] @ []))
   \<and> inj_on name (set [school, polyclinic, cafe] \<union> set [])
   \<and> distinct (map acc_id (Accessibility_calculate ext_ex 7))
   \<and> cafe \<in> set [school, polyclinic, cafe] \<union> set []
   \<and> constants_A (name cafe) =
           Some \<lparr>demand_local =
                   (\<Sum>b \<in> catchment ext_ex 7 cafe.
                      calculate_in_need ext_ex cafe (if b = 7 then 0 else block_population (city_model self_A) b)),
                 capacity_local =
                   (\<Sum>b \<in> catchment ext_ex 7 cafe. block_capacity (city_model self_A) b (name cafe))
                   - block_capacity (city_model self_A) 7 (name cafe)\<rparr>
   \<and> (\<Sum>b \<in> catchment ext_ex 7 cafe.
          calculate_in_need ext_ex cafe (if b = 7 then 0 else block_population (city_model self_A) b)) = 10
   \<and> (\<Sum>b \<in> catchment ext_ex 7 cafe. block_capacity (city_model self_A) b (name cafe))
        - block_capacity (city_model self_A) 7 (name cafe) = 30"
proof -
  have serv: "cafe \<in> set [school, polyclinic, cafe] \<union> set []" by simp
  note t = local_constants_of_catchment [OF run_A new_A orig_A order_A names_A keyed_A serv]
  have d: "(\<Sum>b \<in> catchment ext_ex 7 cafe.
          calculate_in_need ext_ex cafe (if b = 7 then 0 else block_population (city_model self_A) b)) = 10"
    by (simp only: catchment_A) (simp add: ext_ex_def cafe_def block_population_def self_A_def city_A_def)
  have c: "(\<Sum>b \<in> catchment ext_ex 7 cafe. block_capacity (city_model self_A) b (name cafe))
        - block_capacity (city_model self_A) 7 (name cafe) = 30"
    by (simp only: catchment_A) (simp add: cafe_def block_capacity_def self_A_def city_A_def)
  from run_A new_A orig_A order_A names_A keyed_A serv t d c show ?thesis by (intro conjI)
qed

lemma union_A: "service_union ext_ex [school, polyclinic, cafe] [] = [school, polyclinic, cafe]"
  by (simp add: service_union_def ext_ex_def school_def polyclinic_def cafe_def)

lemma margins_A:
  "global_margin ext_ex city_A 7 school = - 120"
  "global_margin ext_ex city_A 7 polyclinic = - 13"
  "global_margin ext_ex city_A 7 cafe = 20"
  by (simp_all add: global_margin_def block_capacity_def city_A_def ext_ex_def school_def
      polyclinic_def cafe_def)

text \<open>C4 at block 7 of city A: schools have the least margin, -120, and the ceiling is 0.\<close>

theorem population_ceiling_first_minimum_witness:
  "get_capacity_demand ext_ex self_A 7 = Inr (constants_A, 0)
   \<and> NEW_SERVICE_TYPES self_A 7 = Some [school, polyclinic, cafe]
   \<and> ORIG_SERVICE_TYPES self_A 7 = Some []
   \<and> is_set_order ext_ex (remdups ([school, polyclinic, cafe] @ []))
   \<and> global_margin ext_ex city_A 7 school = - 120
   \<and> demand school \<noteq> 0
   \<and> (0::rat) = max (global_margin ext_ex city_A 7 school / demand school * 1000) 0"
proof -
  from population_ceiling_first_minimum [OF run_A new_A orig_A order_A]
  obtain i where i: "i < length (service_union ext_ex [school, polyclinic, cafe] [])"
    and le: "\<forall>t \<in> set [school, polyclinic, cafe] \<union> set [].
              global_margin ext_ex (city_model self_A) 7 (service_union ext_ex [school, polyclinic, cafe] [] ! i)
                \<le> global_margin ext_ex (city_model self_A) 7 t"
    and c: "demand (service_union ext_ex [school, polyclinic, cafe] [] ! i) \<noteq> 0 \<longrightarrow>
               (0::rat) =
                 max (global_margin ext_ex (city_model self_A) 7 (service_union ext_ex [school, polyclinic, cafe] [] ! i)
                        / demand (service_union ext_ex [school, polyclinic, cafe] [] ! i) * 1000) 0"
    by blast
  have cm: "city_model self_A = city_A" by (simp add: self_A_def)
  from i have "i = 0 \<or> i = 1 \<or> i = 2" by (auto simp: union_A)
  with le have "i = 0" by (auto simp: union_A cm margins_A)
  with c have "demand school \<noteq> 0 \<longrightarrow> (0::rat) = max (global_margin ext_ex city_A 7 school / demand school * 1000) 0"
    by (simp add: union_A cm)
  moreover have "demand school \<noteq> 0" by (simp add: school_def)
  ultimately show ?thesis using run_A new_A orig_A order_A margins_A(1) by simp
qed

lemma new_T: "NEW_SERVICE_TYPES self_T 7 = Some [cafe, gym]"
  by (simp add: self_T_def)

lemma orig_T: "ORIG_SERVICE_TYPES self_T 7 = Some []"
  by (simp add: self_T_def)

lemma margins_T:
  "global_margin ext_ex city_T 7 cafe = 4" "global_margin ext_ex city_T 7 gym = 4"
  "global_margin ext_rev city_T 7 cafe = 4" "global_margin ext_rev city_T 7 gym = 4"
  by (simp_all add: global_margin_def block_capacity_def city_T_def ext_ex_def ext_rev_def
      cafe_def gym_def)

text \<open>
  C4, as stated: the service type of least margin is chosen deterministically. Around
  block 7 of city T cafes and gyms have the same margin, 4; Python may iterate the set of
  the two in either order, and the ceiling is 400 in one and 100 in the other.
\<close>

theorem population_ceiling_order_counterexample:
  "NEW_SERVICE_TYPES self_T 7 = Some [cafe, gym] \<and> ORIG_SERVICE_TYPES self_T 7 = Some []
   \<and> is_set_order ext_ex (remdups ([cafe, gym] @ []))
   \<and> is_set_order ext_rev (remdups ([cafe, gym] @ []))
   \<and> global_margin ext_ex city_T 7 cafe = global_margin ext_ex city_T 7 gym
   \<and> map_sum id snd (get_capacity_demand ext_ex self_T 7) = Inr 400
   \<and> map_sum id snd (get_capacity_demand ext_rev self_T 7) = Inr 100"
proof -
  have 1: "is_set_order ext_ex (remdups ([cafe, gym] @ []))"
    and 2: "is_set_order ext_rev (remdups ([cafe, gym] @ []))"
    by (auto simp: is_set_order_def ext_ex_def ext_rev_def cafe_def gym_def)
  have 3: "map_sum id snd (get_capacity_demand ext_ex self_T 7) = Inr 400"
    by (simp add: estimator_defs self_T_def initial_context_def city_T_def ext_ex_def
        cafe_def gym_def)
  have 4: "map_sum id snd (get_capacity_demand ext_rev self_T 7) = Inr 100"
    by (simp add: estimator_defs self_T_def initial_context_def city_T_def ext_ex_def ext_rev_def
        cafe_def gym_def)
  from new_T orig_T 1 2 margins_T(1,2) 3 4 show ?thesis by simp
qed

section \<open>When the pipeline completes\<close>

text \<open>What the first loop of \<^verbatim>\<open>calculate\<close> leaves in the context.\<close>

lemma estimator_loop_dom:
  "estimator_loop ext gdf selrow acc st servs = Inr st' \<Longrightarrow>
     constants st n \<noteq> None \<or> n \<in> name ` set servs \<Longrightarrow> constants st' n \<noteq> None"
proof (induction servs arbitrary: st)
  case Nil
  then show ?case by auto
next
  case (Cons s rest)
  from Cons.prems(1) obtain lc m where
    rest: "estimator_loop ext gdf selrow acc
            \<lparr>constants = (constants st)(name s \<mapsto> lc),
             min_found = (if below_min m (min_found st) then Some (m, s) else min_found st)\<rparr>
            rest = Inr st'"
    by (auto split: sum.splits prod.splits)
  show ?case
  proof (rule Cons.IH [OF rest])
    from Cons.prems(2)
    show "constants \<lparr>constants = (constants st)(name s \<mapsto> lc),
             min_found = (if below_min m (min_found st) then Some (m, s) else min_found st)\<rparr> n \<noteq> None
          \<or> n \<in> name ` set rest"
      by auto
  qed
qed

lemma get_capacity_demand_dom:
  assumes run: "get_capacity_demand ext self sel = Inr (cs, mp)"
    and new: "NEW_SERVICE_TYPES self sel = Some new"
    and order: "\<And>xs. set (set_order ext xs) = set xs"
  shows "list_all (\<lambda>serv. cs (name serv) \<noteq> None) new"
proof -
  from run obtain selrow new' orig' st where
    n': "NEW_SERVICE_TYPES self sel = Some new'"
    and loop: "estimator_loop ext (zero_population sel (get_blocks_gdf (city_model self))) selrow
           (Accessibility_calculate ext sel) \<lparr>constants = Map.empty, min_found = None\<rparr>
           (service_union ext new' orig') = Inr st"
    and cs: "cs = constants st"
    by (rule get_capacity_demand_Inr)
  from new n' have e: "new' = new" by simp
  from order have "set new \<subseteq> set (service_union ext new orig')"
    by (simp add: service_union_def)
  with e have "\<And>serv. serv \<in> set new \<Longrightarrow> name serv \<in> name ` set (service_union ext new' orig')"
    by auto
  with estimator_loop_dom [OF loop] cs show ?thesis by (auto simp: list_all_iff)
qed

lemma prepare_block_Inr:
  assumes "prepare_block ext self key lu = Inr self'"
    and order: "\<And>xs. set (set_order ext xs) = set xs"
  shows "prepared self' key lu"
    and "city_model self' = city_model self" and "BLOCKS_LANUSE_DICT self' = BLOCKS_LANUSE_DICT self"
    and "SCENARIO self' = SCENARIO self" and "MAX_FACILITIES self' = MAX_FACILITIES self"
    and "\<And>k. k \<noteq> key \<Longrightarrow> NEW_SERVICE_TYPES self' k = NEW_SERVICE_TYPES self k
                        \<and> BRICKS self' k = BRICKS self k \<and> CONSTANTS self' k = CONSTANTS self k"
proof -
  let ?new = "get_land_use_service_types (city_model self) lu"
  from assms(1) obtain b fa cs mp where
    b: "block (city_model self) key = Some b"
    and run: "get_capacity_demand ext
       (self\<lparr>ORIG_SERVICE_TYPES := (ORIG_SERVICE_TYPES self)(key \<mapsto> get_land_use_service_types (city_model self) (land_use b)),
             NEW_SERVICE_TYPES := (NEW_SERVICE_TYPES self)(key \<mapsto> ?new),
             FREE_AREA := (FREE_AREA self)(key \<mapsto> fa)\<rparr>) key = Inr (cs, mp)"
    and self': "self' = self\<lparr>ORIG_SERVICE_TYPES := (ORIG_SERVICE_TYPES self)(key \<mapsto> get_land_use_service_types (city_model self) (land_use b)),
             NEW_SERVICE_TYPES := (NEW_SERVICE_TYPES self)(key \<mapsto> ?new),
             FREE_AREA := (FREE_AREA self)(key \<mapsto> fa),
             CONSTANTS := (CONSTANTS self)(key \<mapsto> (cs, mp)),
             BRICKS := (BRICKS self)(key \<mapsto> get_bricks_df ?new)\<rparr>"
    by (auto simp: prepare_block_def Let_def split: option.splits sum.splits)
  have "list_all (\<lambda>serv. cs (name serv) \<noteq> None) ?new"
    by (rule get_capacity_demand_dom [OF run _ order]) simp
  with b self' show "prepared self' key lu"
    by (simp add: prepared_def)
  from self' show "city_model self' = city_model self" "BLOCKS_LANUSE_DICT self' = BLOCKS_LANUSE_DICT self"
    "SCENARIO self' = SCENARIO self" "MAX_FACILITIES self' = MAX_FACILITIES self"
    by simp_all
  from self' show "\<And>k. k \<noteq> key \<Longrightarrow> NEW_SERVICE_TYPES self' k = NEW_SERVICE_TYPES self k
                        \<and> BRICKS self' k = BRICKS self k \<and> CONSTANTS self' k = CONSTANTS self k"
    by simp
qed

lemma prepared_cong:
  assumes "prepared self key lu" and "city_model self' = city_model self"
    and "NEW_SERVICE_TYPES self' key = NEW_SERVICE_TYPES self key"
    and "BRICKS self' key = BRICKS self key" and "CONSTANTS self' key = CONSTANTS self key"
  shows "prepared self' key lu"
  using assms by (simp add: prepared_def)

lemma prepare_loop_keeps:
  assumes "prepare_loop ext self bl = Inr self'" and order: "\<And>xs. set (set_order ext xs) = set xs"
  shows "city_model self' = city_model self \<and> BLOCKS_LANUSE_DICT self' = BLOCKS_LANUSE_DICT self
         \<and> SCENARIO self' = SCENARIO self \<and> MAX_FACILITIES self' = MAX_FACILITIES self
         \<and> (\<forall>k. k \<notin> fst ` set bl \<longrightarrow> NEW_SERVICE_TYPES self' k = NEW_SERVICE_TYPES self k
                        \<and> BRICKS self' k = BRICKS self k \<and> CONSTANTS self' k = CONSTANTS self k)"
  using assms(1)
proof (induction bl arbitrary: self)
  case Nil
  then show ?case by simp
next
  case (Cons p rest)
  obtain key lu where p: "p = (key, lu)" by (cases p)
  from Cons.prems p obtain self1 where
    s1: "prepare_block ext self key lu = Inr self1" and r: "prepare_loop ext self1 rest = Inr self'"
    by (auto split: sum.splits)
  note a = prepare_block_Inr [OF s1 order]
  from Cons.IH [OF r] a(2-5) a(6) p show ?case by auto
qed

lemma prepare_loop_prepared:
  assumes "prepare_loop ext self bl = Inr self'" and order: "\<And>xs. set (set_order ext xs) = set xs"
    and "distinct (map fst bl)" and "(key, lu) \<in> set bl"
  shows "prepared self' key lu"
  using assms(1,3,4)
proof (induction bl arbitrary: self)
  case Nil
  then show ?case by simp
next
  case (Cons p rest)
  obtain k l where p: "p = (k, l)" by (cases p)
  from Cons.prems(1) p obtain self1 where
    s1: "prepare_block ext self k l = Inr self1" and r: "prepare_loop ext self1 rest = Inr self'"
    by (auto split: sum.splits)
  show ?case
  proof (cases "(key, lu) \<in> set rest")
    case True
    from Cons.prems(2) have "distinct (map fst rest)" by simp
    from Cons.IH [OF r this True] show ?thesis .
  next
    case False
    with Cons.prems(3) p have e: "key = k" "lu = l" by auto
    from Cons.prems(2) p have nk: "k \<notin> fst ` set rest" by simp
    note a = prepare_block_Inr [OF s1 order]
    note b = prepare_loop_keeps [OF r order]
    from b nk have "city_model self' = city_model self1"
      "NEW_SERVICE_TYPES self' k = NEW_SERVICE_TYPES self1 k"
      "BRICKS self' k = BRICKS self1 k" "CONSTANTS self' k = CONSTANTS self1 k" by simp_all
    with a(1) e show ?thesis by (auto intro: prepared_cong)
  qed
qed

text \<open>When the builder does not raise.\<close>

lemma services_loop_total:
  assumes "bdf \<noteq> []" and "list_all (\<lambda>serv. cs (name serv) \<noteq> None) new"
  shows "\<exists>comps cons. services_loop sc key lu bdf cs dw new = Inr (comps, cons)"
  using assms(2)
proof (induction new)
  case Nil
  then show ?case by simp
next
  case (Cons s rest)
  then obtain lc comps cons where "cs (name s) = Some lc"
    and "services_loop sc key lu bdf cs dw rest = Inr (comps, cons)" by auto
  with assms(1) show ?case by (simp add: service_section_def)
qed

lemma block_section_total:
  assumes p: "prepared self key lu"
    and cat: "get_bricks_df (get_land_use_service_types (city_model self) lu) \<noteq> []"
    and area: "\<forall>b. block (city_model self) key = Some b \<longrightarrow> site_area b \<noteq> 0"
  shows "\<exists>vs comps cons. block_section self key lu = Inr (vs, comps, cons)"
proof -
  let ?new = "get_land_use_service_types (city_model self) lu"
  from p obtain b cs mp where b: "block (city_model self) key = Some b"
    and n: "NEW_SERVICE_TYPES self key = Some ?new"
    and br: "BRICKS self key = Some (get_bricks_df ?new)"
    and c: "CONSTANTS self key = Some (cs, mp)"
    and d: "list_all (\<lambda>serv. cs (name serv) \<noteq> None) ?new"
    by (auto simp: prepared_def Let_def split: option.splits)
  from cat have ne: "?new \<noteq> []" by (auto simp: get_bricks_df_def)
  from services_loop_total [OF cat d] obtain comps cons where
    "services_loop (SCENARIO self) key lu (get_bricks_df ?new) cs
       (default_weight_of (SCENARIO self) ?new) ?new = Inr (comps, cons)" by blast
  with b n br c ne area show ?thesis by (simp add: block_section_def)
qed

lemma blocks_loop_total:
  assumes "\<forall>(key, lu) \<in> set bl. \<exists>vs comps cons. block_section self key lu = Inr (vs, comps, cons)"
  shows "\<exists>vs comps cons. blocks_loop self bl = Inr (vs, comps, cons)"
  using assms
proof (induction bl)
  case Nil
  then show ?case by simp
next
  case (Cons p rest)
  obtain k l where p: "p = (k, l)" by (cases p)
  from Cons.prems p obtain vs comps cons where "block_section self k l = Inr (vs, comps, cons)" by auto
  moreover from Cons obtain vs' comps' cons' where "blocks_loop self rest = Inr (vs', comps', cons')" by auto
  ultimately show ?case using p by simp
qed

text \<open>When the decoder does not raise.\<close>

lemma built_rows_total:
  assumes "\<forall>n \<in> set ns. cs (row_service_type (bdf ! n)) \<noteq> None"
  shows "\<exists>rows. built_rows cs bdf counts ns = Inr rows"
  using assms by (induction ns) auto

lemma row_service_type_get_bricks_df:
  "r \<in> set (get_bricks_df new) \<Longrightarrow> \<exists>serv \<in> set new. row_service_type r = name serv \<and> bricks serv \<noteq> []"
  by (auto simp: get_bricks_df_def)

lemma updates_loop_total:
  assumes "\<forall>key \<in> set keys. \<exists>row rows. block_update self prob vals key = Inr (row, rows)"
  shows "\<exists>update to_build. updates_loop self prob vals keys = Inr (update, to_build)"
  using assms
proof (induction keys)
  case Nil
  then show ?case by simp
next
  case (Cons k rest)
  then obtain row rows where "block_update self prob vals k = Inr (row, rows)" by auto
  moreover from Cons obtain u t where "updates_loop self prob vals rest = Inr (u, t)" by auto
  ultimately show ?case by simp
qed

lemma deleting_rows_total:
  assumes "\<forall>key \<in> set keys. block cm key \<noteq> None"
  shows "\<exists>rows. deleting_rows cm keys = Inr rows \<and> length rows = length keys"
  using assms by (induction keys) auto

lemma service_bricks_idxs_empty:
  assumes "bricks serv = []" and "serv \<in> set new" and "inj_on name (set new)"
  shows "service_bricks_idxs (get_bricks_df new) serv = []"
proof -
  have "row_service_type (get_bricks_df new ! n) \<noteq> name serv" if "n < length (get_bricks_df new)" for n
  proof
    assume e: "row_service_type (get_bricks_df new ! n) = name serv"
    from that have "get_bricks_df new ! n \<in> set (get_bricks_df new)" by simp
    from row_service_type_get_bricks_df [OF this] obtain s where
      s: "s \<in> set new" "row_service_type (get_bricks_df new ! n) = name s" "bricks s \<noteq> []" by blast
    with e assms(2,3) have "s = serv" by (auto dest: inj_onD)
    with s(3) assms(1) show False by simp
  qed
  then show ?thesis by (simp add: service_bricks_idxs_def filter_empty_conv)
qed

text \<open>The variables that pulp collects.\<close>

lemma lp_vars_mul_nonzero: "c \<noteq> 0 \<Longrightarrow> lp_vars (lp_mul e c) = lp_vars e"
  by (simp add: lp_vars_def lp_mul_def fst_image_snd)

lemma brick_var_in_fsi_expression:
  assumes "n < length bdf" and "row_area (bdf ! n) \<noteq> 0"
  shows "BrickVar key n \<in> lp_vars (fsi_expression key bdf block_area)"
proof -
  have "BrickVar key n \<in> lp_vars (lp_div (lp_mul (lp_var (BrickVar key n)) (row_area (bdf ! n))) block_area)"
    using assms(2) by (simp add: lp_vars_mul_nonzero)
  with assms(1) show ?thesis
    unfolding fsi_expression_def lp_vars_lpSum by force
qed

lemma brick_var_collected:
  assumes gen: "generate_lp_problem self = Inr prob"
    and key: "(key, lu) \<in> set (BLOCKS_LANUSE_DICT self)"
    and bdf: "BRICKS self key = Some bdf"
    and n: "n < length bdf" and a: "row_area (bdf ! n) \<noteq> 0"
  shows "BrickVar key n \<in> prob_variables prob"
proof -
  from generate_Inr [OF gen] obtain vs comps cons where
    loop: "blocks_loop self (BLOCKS_LANUSE_DICT self) = Inr (vs, comps, cons)"
    and pc: "constraints prob = cons" by blast
  from blocks_loop_Inr [OF loop key] obtain vs' comps' cons' where
    sec: "block_section self key lu = Inr (vs', comps', cons')"
    and sub: "set cons' \<subseteq> set cons" by blast
  from sec obtain bdf' b cons'' where
    bdf': "BRICKS self key = Some bdf'"
    and cons': "cons' = cons'' @ density_constraints key lu bdf' (site_area (b::Block))"
    by (rule block_section_Inr)
  from bdf bdf' have e: "bdf' = bdf" by simp
  let ?c = "\<lparr>lhs = fsi_expression key bdf (site_area b), sense = LpConstraintLE,
             rhs = FSI_max (LAND_USE_INDICATORS lu)\<rparr>"
  have "?c \<in> set cons'" by (simp add: cons' e density_constraints_def Let_def)
  with sub pc have m: "?c \<in> set (constraints prob)" by auto
  have "BrickVar key n \<in> lp_vars (lhs ?c)"
    using brick_var_in_fsi_expression [OF n a] by simp
  with m show ?thesis unfolding prob_variables_def by blast
qed

lemma block_update_total:
  assumes p: "prepared self key lu"
    and gen: "generate_lp_problem self = Inr prob"
    and key: "(key, lu) \<in> set (BLOCKS_LANUSE_DICT self)"
    and area: "\<exists>r \<in> set (get_bricks_df (get_land_use_service_types (city_model self) lu)). row_area r \<noteq> 0"
  shows "\<exists>row rows. block_update self prob vals key = Inr (row, rows)"
proof -
  let ?new = "get_land_use_service_types (city_model self) lu"
  let ?bdf = "get_bricks_df ?new"
  from p obtain cs mp where br: "BRICKS self key = Some ?bdf"
    and c: "CONSTANTS self key = Some (cs, mp)"
    and d: "list_all (\<lambda>serv. cs (name serv) \<noteq> None) ?new"
    by (auto simp: prepared_def Let_def split: option.splits)
  have "cs (row_service_type (?bdf ! n)) \<noteq> None" if "n < length ?bdf" for n
  proof -
    from that have "?bdf ! n \<in> set ?bdf" by simp
    from row_service_type_get_bricks_df [OF this] d show ?thesis by (auto simp: list_all_iff)
  qed
  then have "\<forall>n \<in> set (filter (\<lambda>n. solved_value prob vals (BrickVar key n) \<noteq> 0) [0..<length ?bdf]).
      cs (row_service_type (?bdf ! n)) \<noteq> None" by simp
  from built_rows_total [OF this] obtain rows where
    rows: "built_rows cs ?bdf (\<lambda>n. solved_value prob vals (BrickVar key n))
       (filter (\<lambda>n. solved_value prob vals (BrickVar key n) \<noteq> 0) [0..<length ?bdf]) = Inr rows"
    by blast
  from area obtain n where n: "n < length ?bdf" and a: "row_area (?bdf ! n) \<noteq> 0"
    by (auto simp: in_set_conv_nth)
  from brick_var_collected [OF gen key br n a] n
  have "\<not> list_all (\<lambda>n. BrickVar key n \<notin> prob_variables prob) [0..<length ?bdf]"
    by (auto simp: list_all_iff)
  with br c rows show ?thesis by (simp add: block_update_def Let_def)
qed

text \<open>
  The context that the first loop has filled: the city, the land-use assignment, and
  what it has stored for every block.
\<close>

lemma filled_context:
  assumes prep: "prepare_loop ext (initial_context cm bl sc mf) bl = Inr self"
    and order: "\<And>xs. set (set_order ext xs) = set xs"
    and keys: "distinct (map fst bl)"
  shows "city_model self = cm" and "BLOCKS_LANUSE_DICT self = bl"
    and "\<And>key lu. (key, lu) \<in> set bl \<Longrightarrow> prepared self key lu"
proof -
  from prepare_loop_keeps [OF prep order]
  show "city_model self = cm" and "BLOCKS_LANUSE_DICT self = bl"
    by (simp_all add: initial_context_def)
  show "prepared self key lu" if "(key, lu) \<in> set bl" for key lu
    using prep order keys that by (rule prepare_loop_prepared)
qed

lemma generate_total:
  assumes pr: "\<And>key lu. (key, lu) \<in> set (BLOCKS_LANUSE_DICT self) \<Longrightarrow> prepared self key lu"
    and cat: "\<forall>(key, lu) \<in> set (BLOCKS_LANUSE_DICT self).
                get_bricks_df (get_land_use_service_types (city_model self) lu) \<noteq> []"
    and area: "\<forall>(key, lu) \<in> set (BLOCKS_LANUSE_DICT self).
                \<forall>b. block (city_model self) key = Some b \<longrightarrow> site_area b \<noteq> 0"
  shows "\<exists>prob. generate_lp_problem self = Inr prob"
proof -
  have "\<forall>(key, lu) \<in> set (BLOCKS_LANUSE_DICT self).
          \<exists>vs comps cons. block_section self key lu = Inr (vs, comps, cons)"
  proof (intro ballI, clarify)
    fix key lu assume m: "(key, lu) \<in> set (BLOCKS_LANUSE_DICT self)"
    from m cat have c: "get_bricks_df (get_land_use_service_types (city_model self) lu) \<noteq> []" by auto
    from m area have a: "\<forall>b. block (city_model self) key = Some b \<longrightarrow> site_area b \<noteq> 0" by auto
    from block_section_total [OF pr [OF m] c a]
    show "\<exists>vs comps cons. block_section self key lu = Inr (vs, comps, cons)" .
  qed
  from blocks_loop_total [OF this] show ?thesis
    by (auto simp: generate_lp_problem_def)
qed

lemma decode_and_bundle_total:
  assumes gen: "generate_lp_problem self = Inr prob"
    and obj: "lp_terms (objective prob) \<noteq> []"
    and pr: "\<And>key lu. (key, lu) \<in> set (BLOCKS_LANUSE_DICT self) \<Longrightarrow> prepared self key lu"
    and rows: "\<forall>(key, lu) \<in> set (BLOCKS_LANUSE_DICT self).
                \<exists>r \<in> set (get_bricks_df (get_land_use_service_types (city_model self) lu)). row_area r \<noteq> 0"
    and ne: "BLOCKS_LANUSE_DICT self \<noteq> []"
  shows "\<exists>outcome. decode_and_bundle self prob vals = Inr outcome"
proof -
  let ?bl = "BLOCKS_LANUSE_DICT self"
  have "\<forall>key \<in> set (map fst ?bl). \<exists>row rows. block_update self prob vals key = Inr (row, rows)"
  proof
    fix key assume "key \<in> set (map fst ?bl)"
    then obtain lu where m: "(key, lu) \<in> set ?bl" by auto
    with rows have "\<exists>r \<in> set (get_bricks_df (get_land_use_service_types (city_model self) lu)). row_area r \<noteq> 0"
      by auto
    from block_update_total [OF pr [OF m] gen m this]
    show "\<exists>row rows. block_update self prob vals key = Inr (row, rows)" .
  qed
  from updates_loop_total [OF this] obtain update to_build where
    up: "updates_loop self prob vals (map fst ?bl) = Inr (update, to_build)" by blast
  have "\<forall>key \<in> set (map fst ?bl). block (city_model self) key \<noteq> None"
  proof
    fix key assume "key \<in> set (map fst ?bl)"
    then obtain lu where "(key, lu) \<in> set ?bl" by auto
    from pr [OF this] show "block (city_model self) key \<noteq> None" by (simp add: prepared_def Let_def)
  qed
  from deleting_rows_total [OF this] obtain drows where
    del: "deleting_rows (city_model self) (map fst ?bl) = Inr drows"
    and len: "length drows = length (map fst ?bl)" by blast
  from len ne have "drows \<noteq> []" by auto
  with up del obj show ?thesis
    by (simp add: decode_and_bundle_def get_optimal_update_df_def concat_ignore_index_def)
qed

lemma calculate_after_build:
  assumes "prepare_loop ext (initial_context cm bl sc mf) bl = Inr self"
    and "generate_lp_problem self = Inr prob"
  shows "calculate ext solve cm bl sc mf
           = ([LpStatus (fst (solve prob))], decode_and_bundle self prob (snd (solve prob)))"
  using assms by (cases "solve prob") (simp add: calculate_def)

section \<open>Categories without bricks\<close>

text \<open>
  C8, amended. When the context has been filled for at least one block, and every block
  of the land-use assignment has a catalog with at least one brick and a site area other
  than 0, then building the program completes and \<^verbatim>\<open>calculate\<close> prints the status of
  the solve and nothing else, also when candidate service types have no brick. Such a
  service type, when the names are distinct, has no row in the catalog and its built
  capacity is the empty sum. When moreover the objective of the program mentions a
  variable and the catalog of every block has a brick of an area other than 0, decoding
  completes and \<^verbatim>\<open>calculate\<close> returns its result.
\<close>

theorem calculate_completes:
  assumes prep: "prepare_loop ext (initial_context cm bl sc mf) bl = Inr self"
    and order: "\<And>xs. set (set_order ext xs) = set xs"
    and keys: "distinct (map fst bl)" and ne: "bl \<noteq> []"
    and cat: "\<forall>(key, lu) \<in> set bl. get_bricks_df (get_land_use_service_types cm lu) \<noteq> []"
    and area: "\<forall>(key, lu) \<in> set bl. \<forall>b. block cm key = Some b \<longrightarrow> site_area b \<noteq> 0"
  shows "(\<exists>prob. generate_lp_problem self = Inr prob
            \<and> fst (calculate ext solve cm bl sc mf) = [LpStatus (fst (solve prob))]
            \<and> (lp_terms (objective prob) \<noteq> []
                 \<and> (\<forall>(key, lu) \<in> set bl.
                       \<exists>r \<in> set (get_bricks_df (get_land_use_service_types cm lu)). row_area r \<noteq> 0)
               \<longrightarrow> (\<exists>outcome. snd (calculate ext solve cm bl sc mf) = Inr outcome)))
         \<and> (\<forall>(key, lu) \<in> set bl. \<forall>serv \<in> set (get_land_use_service_types cm lu).
               bricks serv = [] \<and> inj_on name (set (get_land_use_service_types cm lu)) \<longrightarrow>
                 BRICKS self key = Some (get_bricks_df (get_land_use_service_types cm lu))
               \<and> service_bricks_idxs (get_bricks_df (get_land_use_service_types cm lu)) serv = []
               \<and> fit_function key (get_bricks_df (get_land_use_service_types cm lu)) serv = lp_zero)"
proof -
  note ctx = filled_context [OF prep order keys]
  from ctx have cm: "city_model self = cm" and bl: "BLOCKS_LANUSE_DICT self = bl" by simp_all
  have pr: "prepared self key lu" if "(key, lu) \<in> set (BLOCKS_LANUSE_DICT self)" for key lu
    using ctx(3) that bl by simp
  from cat area cm bl
  have "\<forall>(key, lu) \<in> set (BLOCKS_LANUSE_DICT self).
          get_bricks_df (get_land_use_service_types (city_model self) lu) \<noteq> []"
    and "\<forall>(key, lu) \<in> set (BLOCKS_LANUSE_DICT self).
          \<forall>b. block (city_model self) key = Some b \<longrightarrow> site_area b \<noteq> 0"
    by simp_all
  from generate_total [OF pr this] obtain prob where gen: "generate_lp_problem self = Inr prob"
    by blast
  note calc = calculate_after_build [OF prep gen, of solve]
  from calc have printed: "fst (calculate ext solve cm bl sc mf) = [LpStatus (fst (solve prob))]"
    by simp
  have dec: "\<exists>outcome. snd (calculate ext solve cm bl sc mf) = Inr outcome"
    if obj: "lp_terms (objective prob) \<noteq> []"
      and rows: "\<forall>(key, lu) \<in> set bl.
                  \<exists>r \<in> set (get_bricks_df (get_land_use_service_types cm lu)). row_area r \<noteq> 0"
  proof -
    from rows cm bl
    have r: "\<forall>(key, lu) \<in> set (BLOCKS_LANUSE_DICT self).
               \<exists>r \<in> set (get_bricks_df (get_land_use_service_types (city_model self) lu)). row_area r \<noteq> 0"
      by simp
    from ne bl have n: "BLOCKS_LANUSE_DICT self \<noteq> []" by simp
    from decode_and_bundle_total [OF gen obj pr r n, of "snd (solve prob)"] calc
    show ?thesis by auto
  qed
  have zero: "\<forall>(key, lu) \<in> set bl. \<forall>serv \<in> set (get_land_use_service_types cm lu).
               bricks serv = [] \<and> inj_on name (set (get_land_use_service_types cm lu)) \<longrightarrow>
                 BRICKS self key = Some (get_bricks_df (get_land_use_service_types cm lu))
               \<and> service_bricks_idxs (get_bricks_df (get_land_use_service_types cm lu)) serv = []
               \<and> fit_function key (get_bricks_df (get_land_use_service_types cm lu)) serv = lp_zero"
  proof (intro ballI, clarify)
    fix key lu serv
    assume m: "(key, lu) \<in> set bl" and s: "serv \<in> set (get_land_use_service_types cm lu)"
      and b: "bricks serv = []" and i: "inj_on name (set (get_land_use_service_types cm lu))"
    from ctx(3) [OF m] cm have 1: "BRICKS self key = Some (get_bricks_df (get_land_use_service_types cm lu))"
      by (simp add: prepared_def Let_def)
    from service_bricks_idxs_empty [OF b s i]
    have 2: "service_bricks_idxs (get_bricks_df (get_land_use_service_types cm lu)) serv = []" .
    then have 3: "fit_function key (get_bricks_df (get_land_use_service_types cm lu)) serv = lp_zero"
      by (simp add: fit_function_def lpSum_def)
    from 1 2 3 show "BRICKS self key = Some (get_bricks_df (get_land_use_service_types cm lu))
               \<and> service_bricks_idxs (get_bricks_df (get_land_use_service_types cm lu)) serv = []
               \<and> fit_function key (get_bricks_df (get_land_use_service_types cm lu)) serv = lp_zero"
      by (intro conjI)
  qed
  from gen printed dec
  have "\<exists>prob. generate_lp_problem self = Inr prob
            \<and> fst (calculate ext solve cm bl sc mf) = [LpStatus (fst (solve prob))]
            \<and> (lp_terms (objective prob) \<noteq> []
                 \<and> (\<forall>(key, lu) \<in> set bl.
                       \<exists>r \<in> set (get_bricks_df (get_land_use_service_types cm lu)). row_area r \<noteq> 0)
               \<longrightarrow> (\<exists>outcome. snd (calculate ext solve cm bl sc mf) = Inr outcome))"
    by blast
  with zero show ?thesis by (intro conjI)
qed

text \<open>
  C8, as stated: a candidate service type without bricks does not abort the calculation.
  In city C the only candidate service type of block 7 has no brick; the catalog is the
  table without columns, and \<^verbatim>\<open>calculate\<close> raises the AttributeError of the builder
  before anything is solved or printed.
\<close>

theorem calculate_empty_catalog_counterexample:
  "bricks polyclinic = []
   \<and> get_land_use_service_types city_C RESIDENTIAL = [polyclinic]
   \<and> calculate ext_B solve_optimal_zero city_C [(7, RESIDENTIAL)] [] (Some 5) = ([], Inl AttributeError)"
  by (simp add: calculate_def initial_context_def prepare_block_def calculate_free_area_def
      estimator_defs get_bricks_df_def builder_defs city_C_def city_B_def ext_B_def ext_ex_def
      polyclinic_def)

text \<open>City A: what the first loop leaves, and the optimum of its program.\<close>

lemma prepare_A:
  "prepare_loop ext_ex (initial_context city_A [(7, RESIDENTIAL)] [] (Some 5)) [(7, RESIDENTIAL)] = Inr self_A"
  by (simp add: initial_context_def prepare_block_def calculate_free_area_def estimator_defs
      get_bricks_df_def city_A_def ext_ex_def self_A_def school_def polyclinic_def cafe_def)

lemma optimum_A:
  assumes "feasible prob_A a"
  shows "lp_value a (objective prob_A) \<le> lp_value vals_A (objective prob_A)"
proof -
  from assms have "50 * a (BrickVar 7 0) \<le> 120" and "0 \<le> a (PopulationVar 7)"
    and "is_integer (a (BrickVar 7 0))"
    by (simp_all add: feasible_def prob_A_def var_ok_def constraint_ok_def lp_value_def)
  then obtain k :: int where k: "a (BrickVar 7 0) = of_int k"
    unfolding is_integer_def by (auto elim: Ints_cases)
  with \<open>50 * a (BrickVar 7 0) \<le> 120\<close> have "of_int (50 * k) \<le> (of_int 120 :: rat)" by simp
  then have "50 * k \<le> 120" by (simp only: of_int_le_iff)
  then have "k \<le> 2" by simp
  then have "a (BrickVar 7 0) \<le> 2" using k by simp
  with \<open>0 \<le> a (PopulationVar 7)\<close> show ?thesis
    by (simp add: prob_A_def vals_A_def lp_value_def)
qed

text \<open>
  C8, amended, at city A, where polyclinics have no brick and schools and cafes have one,
  with the solve that leaves the optimum of the program.
\<close>

theorem calculate_completes_witness:
  "prepare_loop ext_ex (initial_context city_A [(7, RESIDENTIAL)] [] (Some 5)) [(7, RESIDENTIAL)] = Inr self_A
   \<and> (\<forall>xs. set (set_order ext_ex xs) = set xs)
   \<and> distinct (map fst [(7::nat, RESIDENTIAL)]) \<and> [(7::nat, RESIDENTIAL)] \<noteq> []
   \<and> get_bricks_df (get_land_use_service_types city_A RESIDENTIAL) \<noteq> []
   \<and> block city_A 7 \<noteq> None
   \<and> polyclinic \<in> set (get_land_use_service_types city_A RESIDENTIAL) \<and> bricks polyclinic = []
   \<and> inj_on name (set (get_land_use_service_types city_A RESIDENTIAL))
   \<and> generate_lp_problem self_A = Inr prob_A
   \<and> lp_terms (objective prob_A) \<noteq> []
   \<and> (\<exists>r \<in> set (get_bricks_df (get_land_use_service_types city_A RESIDENTIAL)). row_area r \<noteq> 0)
   \<and> fst (calculate ext_ex solve_A city_A [(7, RESIDENTIAL)] [] (Some 5)) = [''Optimal'']
   \<and> (\<exists>outcome. snd (calculate ext_ex solve_A city_A [(7, RESIDENTIAL)] [] (Some 5)) = Inr outcome)
   \<and> fit_function 7 (get_bricks_df (get_land_use_service_types city_A RESIDENTIAL)) polyclinic = lp_zero"
proof -
  have order: "set (set_order ext_ex xs) = set xs" for xs by (simp add: ext_ex_def)
  have keys: "distinct (map fst [(7::nat, RESIDENTIAL)])" and ne: "[(7::nat, RESIDENTIAL)] \<noteq> []"
    by simp_all
  have cat0: "get_bricks_df (get_land_use_service_types city_A RESIDENTIAL) \<noteq> []"
    by (simp add: city_A_def get_bricks_df_def school_def)
  then have cat: "\<forall>(key, lu) \<in> set [(7::nat, RESIDENTIAL)].
      get_bricks_df (get_land_use_service_types city_A lu) \<noteq> []" by simp
  have area: "\<forall>(key, lu) \<in> set [(7::nat, RESIDENTIAL)]. \<forall>b. block city_A key = Some b \<longrightarrow> site_area b \<noteq> 0"
    by (simp add: city_A_def)
  have blk: "block city_A 7 \<noteq> None" by (simp add: city_A_def)
  have mem: "polyclinic \<in> set (get_land_use_service_types city_A RESIDENTIAL)"
    by (simp add: city_A_def)
  have nb: "bricks polyclinic = []" by (simp add: polyclinic_def)
  have inj: "inj_on name (set (get_land_use_service_types city_A RESIDENTIAL))"
    by (simp add: city_A_def school_def polyclinic_def cafe_def)
  have obj: "lp_terms (objective prob_A) \<noteq> []" by (simp add: prob_A_def)
  have rows0: "\<exists>r \<in> set (get_bricks_df (get_land_use_service_types city_A RESIDENTIAL)). row_area r \<noteq> 0"
    by (simp add: city_A_def get_bricks_df_def school_def)
  then have rows: "\<forall>(key, lu) \<in> set [(7::nat, RESIDENTIAL)].
      \<exists>r \<in> set (get_bricks_df (get_land_use_service_types city_A lu)). row_area r \<noteq> 0" by simp
  note t = calculate_completes [OF prepare_A order keys ne cat area, of solve_A]
  from t obtain prob where gen: "generate_lp_problem self_A = Inr prob"
    and pri: "fst (calculate ext_ex solve_A city_A [(7, RESIDENTIAL)] [] (Some 5))
                = [LpStatus (fst (solve_A prob))]"
    and dec: "lp_terms (objective prob) \<noteq> []
                 \<and> (\<forall>(key, lu) \<in> set [(7::nat, RESIDENTIAL)].
                       \<exists>r \<in> set (get_bricks_df (get_land_use_service_types city_A lu)). row_area r \<noteq> 0)
               \<longrightarrow> (\<exists>outcome. snd (calculate ext_ex solve_A city_A [(7, RESIDENTIAL)] [] (Some 5)) = Inr outcome)"
    by blast
  from gen generate_A have p: "prob = prob_A" by simp
  from pri have 1: "fst (calculate ext_ex solve_A city_A [(7, RESIDENTIAL)] [] (Some 5)) = [''Optimal'']"
    by (simp add: solve_A_def)
  from dec obj rows p
  have 2: "\<exists>outcome. snd (calculate ext_ex solve_A city_A [(7, RESIDENTIAL)] [] (Some 5)) = Inr outcome"
    by blast
  from t mem nb inj
  have 3: "fit_function 7 (get_bricks_df (get_land_use_service_types city_A RESIDENTIAL)) polyclinic = lp_zero"
    by auto
  from prepare_A order keys ne cat0 blk mem nb inj generate_A obj rows0 1 2 3
  show ?thesis by (intro conjI allI)
qed

section \<open>The pipeline and the status of the solve\<close>

text \<open>City D: what the first loop leaves, its program, and what the decoder returns.\<close>

lemma prepare_D:
  "prepare_loop ext_ex (initial_context city_D [(7, RESIDENTIAL)] [] (Some 5)) [(7, RESIDENTIAL)] = Inr self_D"
  by (simp add: initial_context_def prepare_block_def calculate_free_area_def estimator_defs
      get_bricks_df_def city_D_def ext_ex_def self_D_def school_def cafe_def)

lemma generate_D: "generate_lp_problem self_D = Inr prob_D"
  by (simp add: builder_defs self_D_def city_D_def prob_D_def school_def cafe_def
      upt_2 Let_def)

lemma infeasible_D: "\<not> feasible prob_D a"
proof
  assume f: "feasible prob_D a"
  then have "50 * a (BrickVar 7 0) \<le> 120" and "a (BrickVar 7 1) \<le> 5"
    and "1 / 2 \<le> 1 / 20 * a (BrickVar 7 0) + 1 / 100 * a (BrickVar 7 1)"
    by (simp_all add: feasible_def prob_D_def var_ok_def constraint_ok_def lp_value_def)
  then show False by simp
qed

lemma collected_D:
  "prob_variables prob_D = {BrickVar 7 0, BrickVar 7 1, PopulationVar 7}"
  by (auto simp: prob_variables_def lp_vars_def prob_D_def)

lemma decode_D:
  "update_entry (decode_and_bundle self_D prob_D vals_D) 7 ''school'' = Inr (Some 100)"
  by (simp add: update_entry_def decode_and_bundle_def get_optimal_update_df_def block_update_def
      solved_value_def collected_D group_capacities_def concat_ignore_index_def deleting_row_def
      fillna0_def from_dict_index_def self_D_def city_D_def vals_D_def upt_2)
    (auto simp: prob_D_def)

lemma calculate_D:
  "calculate ext_ex solve_infeasible city_D [(7, RESIDENTIAL)] [] (Some 5)
     = ([''Infeasible''], decode_and_bundle self_D prob_D vals_D)"
  by (simp only: calculate_def prepare_D generate_D solve_infeasible_def sum.case prod.case
      LpStatus.simps)

text \<open>
  C1, amended. When the context has been filled, the program is built, its objective
  mentions a variable and the catalog of every block has a brick of an area other than 0,
  then \<^verbatim>\<open>calculate\<close> prints the status that the engine reports, whatever it is, runs the
  decoder on the values that the engine has left in the variables and returns the update
  tables decoded from them: no failure is raised on a status other than optimal, and two
  solves that leave the same values give the same result.
\<close>

theorem calculate_decodes_whatever_status:
  assumes prep: "prepare_loop ext (initial_context cm bl sc mf) bl = Inr self"
    and order: "\<And>xs. set (set_order ext xs) = set xs"
    and keys: "distinct (map fst bl)" and ne: "bl \<noteq> []"
    and rows: "\<forall>(key, lu) \<in> set bl.
                 \<exists>r \<in> set (get_bricks_df (get_land_use_service_types cm lu)). row_area r \<noteq> 0"
    and gen: "generate_lp_problem self = Inr prob"
    and obj: "lp_terms (objective prob) \<noteq> []"
  shows "\<exists>outcome. decode_and_bundle self prob (snd (solve prob)) = Inr outcome
           \<and> calculate ext solve cm bl sc mf = ([LpStatus (fst (solve prob))], Inr outcome)
           \<and> (\<forall>solve'. snd (solve' prob) = snd (solve prob) \<longrightarrow>
                 calculate ext solve' cm bl sc mf = ([LpStatus (fst (solve' prob))], Inr outcome))"
proof -
  note ctx = filled_context [OF prep order keys]
  from ctx have cm: "city_model self = cm" and bl: "BLOCKS_LANUSE_DICT self = bl" by simp_all
  have pr: "prepared self key lu" if "(key, lu) \<in> set (BLOCKS_LANUSE_DICT self)" for key lu
    using ctx(3) that bl by simp
  from rows cm bl
  have r: "\<forall>(key, lu) \<in> set (BLOCKS_LANUSE_DICT self).
             \<exists>r \<in> set (get_bricks_df (get_land_use_service_types (city_model self) lu)). row_area r \<noteq> 0"
    by simp
  from ne bl have n: "BLOCKS_LANUSE_DICT self \<noteq> []" by simp
  from decode_and_bundle_total [OF gen obj pr r n, of "snd (solve prob)"]
  obtain outcome where dec: "decode_and_bundle self prob (snd (solve prob)) = Inr outcome" by blast
  from calculate_after_build [OF prep gen, of solve] dec
  have calc: "calculate ext solve cm bl sc mf = ([LpStatus (fst (solve prob))], Inr outcome)" by simp
  have same: "calculate ext solve' cm bl sc mf = ([LpStatus (fst (solve' prob))], Inr outcome)"
    if "snd (solve' prob) = snd (solve prob)" for solve'
    using calculate_after_build [OF prep gen, of solve'] dec that by simp
  from dec calc same show ?thesis by blast
qed

text \<open>
  C1, as stated: on a status other than optimal \<^verbatim>\<open>calculate\<close> raises and the decoder
  does not run. The program of city D has no feasible assignment; for a solve that
  reports it infeasible and leaves two school bricks in the variables, \<^verbatim>\<open>calculate\<close>
  prints the status and returns a result, whose allocation update has 100 school places
  for block 7.
\<close>

theorem calculate_infeasible_counterexample:
  "fst (solve_infeasible prob_D) = LpStatusInfeasible
   \<and> \<not> feasible prob_D (snd (solve_infeasible prob_D))
   \<and> fst (calculate ext_ex solve_infeasible city_D [(7, RESIDENTIAL)] [] (Some 5)) = [''Infeasible'']
   \<and> \<not> isl (snd (calculate ext_ex solve_infeasible city_D [(7, RESIDENTIAL)] [] (Some 5)))
   \<and> update_entry (snd (calculate ext_ex solve_infeasible city_D [(7, RESIDENTIAL)] [] (Some 5))) 7 ''school''
       = Inr (Some 100)"
proof -
  have "\<not> isl (decode_and_bundle self_D prob_D vals_D)"
    using decode_D by (cases "decode_and_bundle self_D prob_D vals_D") (simp_all add: update_entry_def)
  then show ?thesis
    by (simp add: calculate_D solve_infeasible_def infeasible_D decode_D)
qed

text \<open>
  C1, amended, at city D: the result is returned for the solve that reports the status
  infeasible, and it is the same for a solve that reports the status optimal.
\<close>

theorem calculate_decodes_whatever_status_witness:
  "prepare_loop ext_ex (initial_context city_D [(7, RESIDENTIAL)] [] (Some 5)) [(7, RESIDENTIAL)] = Inr self_D
   \<and> (\<forall>xs. set (set_order ext_ex xs) = set xs)
   \<and> distinct (map fst [(7::nat, RESIDENTIAL)]) \<and> [(7::nat, RESIDENTIAL)] \<noteq> []
   \<and> (\<exists>r \<in> set (get_bricks_df (get_land_use_service_types city_D RESIDENTIAL)). row_area r \<noteq> 0)
   \<and> generate_lp_problem self_D = Inr prob_D
   \<and> lp_terms (objective prob_D) \<noteq> []
   \<and> snd (solve_same_values prob_D) = snd (solve_infeasible prob_D)
   \<and> (\<exists>outcome. decode_and_bundle self_D prob_D vals_D = Inr outcome
         \<and> calculate ext_ex solve_infeasible city_D [(7, RESIDENTIAL)] [] (Some 5)
             = ([''Infeasible''], Inr outcome)
         \<and> calculate ext_ex solve_same_values city_D [(7, RESIDENTIAL)] [] (Some 5)
             = ([''Optimal''], Inr outcome))"
proof -
  have order: "set (set_order ext_ex xs) = set xs" for xs by (simp add: ext_ex_def)
  have keys: "distinct (map fst [(7::nat, RESIDENTIAL)])" and ne: "[(7::nat, RESIDENTIAL)] \<noteq> []"
    by simp_all
  have rows0: "\<exists>r \<in> set (get_bricks_df (get_land_use_service_types city_D RESIDENTIAL)). row_area r \<noteq> 0"
    by (simp add: city_D_def get_bricks_df_def school_def)
  then have rows: "\<forall>(key, lu) \<in> set [(7::nat, RESIDENTIAL)].
      \<exists>r \<in> set (get_bricks_df (get_land_use_service_types city_D lu)). row_area r \<noteq> 0" by simp
  have obj: "lp_terms (objective prob_D) \<noteq> []" by (simp add: prob_D_def)
  have same: "snd (solve_same_values prob_D) = snd (solve_infeasible prob_D)"
    by (simp add: solve_same_values_def solve_infeasible_def)
  note t = calculate_decodes_whatever_status
             [OF prepare_D order keys ne rows generate_D obj, of solve_infeasible]
  from t obtain outcome where
    dec: "decode_and_bundle self_D prob_D (snd (solve_infeasible prob_D)) = Inr outcome"
    and c1: "calculate ext_ex solve_infeasible city_D [(7, RESIDENTIAL)] [] (Some 5)
               = ([LpStatus (fst (solve_infeasible prob_D))], Inr outcome)"
    and c2: "\<forall>solve'. snd (solve' prob_D) = snd (solve_infeasible prob_D) \<longrightarrow>
               calculate ext_ex solve' city_D [(7, RESIDENTIAL)] [] (Some 5)
                 = ([LpStatus (fst (solve' prob_D))], Inr outcome)"
    by blast
  from dec have 1: "decode_and_bundle self_D prob_D vals_D = Inr outcome"
    by (simp add: solve_infeasible_def)
  from c1 have 2: "calculate ext_ex solve_infeasible city_D [(7, RESIDENTIAL)] [] (Some 5)
             = ([''Infeasible''], Inr outcome)"
    by (simp add: solve_infeasible_def)
  from c2 same have "calculate ext_ex solve_same_values city_D [(7, RESIDENTIAL)] [] (Some 5)
                 = ([LpStatus (fst (solve_same_values prob_D))], Inr outcome)" by blast
  then have 3: "calculate ext_ex solve_same_values city_D [(7, RESIDENTIAL)] [] (Some 5)
             = ([''Optimal''], Inr outcome)"
    by (simp add: solve_same_values_def)
  from 1 2 3 have "\<exists>outcome. decode_and_bundle self_D prob_D vals_D = Inr outcome
         \<and> calculate ext_ex solve_infeasible city_D [(7, RESIDENTIAL)] [] (Some 5)
             = ([''Infeasible''], Inr outcome)
         \<and> calculate ext_ex solve_same_values city_D [(7, RESIDENTIAL)] [] (Some 5)
             = ([''Optimal''], Inr outcome)" by blast
  with prepare_D order keys ne rows0 generate_D obj same show ?thesis by (intro conjI allI)
qed

section \<open>Demolition update\<close>

text \<open>
  When no two installed services of the block have the same service type, the row maps
  the type of every installed service to the negation of its capacity.
\<close>

lemma service_capacities_loop_other:
  "k \<notin> service_type ` set servs \<Longrightarrow> map_of (service_capacities_loop d servs) k = map_of d k"
  by (induction servs arbitrary: d) (auto simp: update_conv)

lemma map_of_service_capacities_loop:
  "distinct (map service_type servs) \<Longrightarrow> serv \<in> set servs \<Longrightarrow>
   map_of (service_capacities_loop d servs) (service_type serv) = Some (- capacity serv)"
proof (induction servs arbitrary: d)
  case Nil
  then show ?case by simp
next
  case (Cons s rest)
  show ?case
  proof (cases "serv \<in> set rest")
    case True
    with Cons show ?thesis by simp
  next
    case False
    with Cons.prems have "serv = s" by simp
    with Cons.prems show ?thesis
      by (simp add: service_capacities_loop_other update_conv)
  qed
qed

text \<open>
  C9. The demolition update is one row that maps the service type of every installed
  service to the negation of its full capacity, and \<open>population\<close> to the negation of the
  population when the flag is set. The loop assigns the entry of a service type and
  does not add to it: for the block with two schools, of capacities 10 and 7, the row
  holds -7 for schools, the negation of the last one alone.
\<close>

theorem get_deleting_update_df_repeated_category:
  "get_deleting_update_df city_two_schools 1 True
     = Inr (from_dict_index [(1, [(''school'', - 7), (''population'', - 100)])])"
  by (simp add: get_deleting_update_df_def city_two_schools_def deleting_row_def)

section \<open>The combine step\<close>

text \<open>
  C10, as stated: merging an allocation update with the all-zero demolition row of a
  block without installed services gives the allocation update back. Block 7 of city B
  has no service and no inhabitant, its demolition row is \<open>population: 0\<close>, and the merge
  of the allocation update \<open>school: 250\<close> with it has one column more.
\<close>

theorem combine_step_not_identity_counterexample:
  "get_deleting_update_df city_B 7 True = Inr (from_dict_index [(7, [(''population'', 0)])])
   \<and> combine_step city_B 7 (from_dict_index [(7, [(''school'', 250)])])
       \<noteq> Inr (from_dict_index [(7, [(''school'', 250)])])"
  by (simp add: combine_step_def get_deleting_update_df_def city_B_def deleting_row_def
      combine_first_def from_dict_index_def)

text \<open>
  C10, amended. For a block without installed services whose demolition row is all zero,
  the merge keeps every entry of the allocation update and every delta it holds is the
  delta of the allocation update: it only adds the row of the block and the column
  \<open>population\<close>, with zeros.
\<close>

theorem combine_step_zero_row:
  assumes "block cm b = Some blk" and "all_services blk = []"
    and "list_all (\<lambda>(k, v). v = 0) (deleting_row blk True)"
  shows "\<exists>merged. combine_step cm b update_df = Inr merged
           \<and> (\<forall>r c. entry merged r c = entry update_df r c)
           \<and> (\<forall>r c v. cell update_df r c = Some v \<longrightarrow> cell merged r c = Some v)
           \<and> index merged = index update_df \<union> {b}
           \<and> columns merged = columns update_df \<union> {''population''}"
  using assms
  by (auto simp: combine_step_def get_deleting_update_df_def deleting_row_def combine_first_def
      from_dict_index_def entry_def split: option.splits)

text \<open>C10, amended, at block 7 of city B.\<close>

theorem combine_step_zero_row_witness:
  "block city_B 7 = Some \<lparr>site_area = 10000, land_use = RECREATION, population = 0, all_services = []\<rparr>
   \<and> (\<exists>merged. combine_step city_B 7 (from_dict_index [(7, [(''school'', 250)])]) = Inr merged
          \<and> entry merged 7 ''school'' = 250 \<and> entry merged 7 ''population'' = 0
          \<and> cell merged 7 ''school'' = Some 250
          \<and> columns merged = {''school'', ''population''})"
proof -
  let ?blk = "\<lparr>site_area = 10000, land_use = RECREATION, population = 0, all_services = []\<rparr>"
  let ?u = "from_dict_index [(7, [(''school'', 250)])]"
  have b: "block city_B 7 = Some ?blk" by (simp add: city_B_def)
  have s: "all_services ?blk = []" by simp
  have z: "list_all (\<lambda>(k, v). v = 0) (deleting_row ?blk True)" by (simp add: deleting_row_def)
  from combine_step_zero_row [OF b s z, of ?u]
  obtain merged where m: "combine_step city_B 7 ?u = Inr merged"
    and e: "\<forall>r c. entry merged r c = entry ?u r c"
    and k: "\<forall>r c v. cell ?u r c = Some v \<longrightarrow> cell merged r c = Some v"
    and c: "columns merged = columns ?u \<union> {''population''}" by blast
  have "entry merged 7 ''school'' = 250" "entry merged 7 ''population'' = 0"
    using e by (simp_all add: entry_def from_dict_index_def)
  moreover have "cell merged 7 ''school'' = Some 250"
    using k by (simp add: from_dict_index_def)
  moreover have "columns merged = {''school'', ''population''}"
    using c by (auto simp: from_dict_index_def)
  ultimately show ?thesis using b m by blast
qed


end
